theory Spec2Isabelle
  imports Main
begin

section \<open>Values carried by the protocol\<close>

text \<open>
  Messages, peer records and file metas are JSON values decoded by \<^verbatim>\<open>json.loads\<close>.
  A JSON object is kept as the list of its entries in insertion order, which is the
  order a Python dict iterates in. Numbers with a fraction are not represented: no
  value the index or the handlers inspect (ids, names, hosts, ports, counts) needs one.
\<close>

datatype json =
    JNull
  | JBool bool
  | JInt int
  | JStr string
  | JList "json list"
  | JObj "(string \<times> json) list"

type_synonym jobj = "(string \<times> json) list"

datatype py_error =
    AttributeError
  | TypeError
  | ValueError

text \<open>
  \<open>AttributeError\<close>: \<^verbatim>\<open>.get\<close> called on a value that is not a dict.
  \<open>TypeError\<close>: an unhashable value (list, dict) used as a dict key, or \<^verbatim>\<open>int()\<close>
  of a list, dict or None. \<open>ValueError\<close>: \<^verbatim>\<open>int()\<close> of a string that is not a number.
\<close>

subsection \<open>Python dicts as insertion-ordered association lists\<close>

text \<open>\<^verbatim>\<open>d.get(k)\<close> with \<open>None\<close> for an absent key.\<close>

definition dict_get :: "('k \<times> 'v) list \<Rightarrow> 'k \<Rightarrow> 'v option" where
  "dict_get d k = map_of d k"

text \<open>\<^verbatim>\<open>d[k] = v\<close>: an existing key keeps its position, a new key goes last.\<close>

primrec dict_set :: "('k \<times> 'v) list \<Rightarrow> 'k \<Rightarrow> 'v \<Rightarrow> ('k \<times> 'v) list" where
  "dict_set [] k v = [(k, v)]"
| "dict_set (e # es) k v = (if fst e = k then (k, v) # es else e # dict_set es k v)"

text \<open>\<^verbatim>\<open>del d[k]\<close> and \<^verbatim>\<open>d.pop(k, None)\<close>, as far as the dict is concerned.\<close>

definition dict_del :: "('k \<times> 'v) list \<Rightarrow> 'k \<Rightarrow> ('k \<times> 'v) list" where
  "dict_del d k = filter (\<lambda>e. fst e \<noteq> k) d"

text \<open>\<^verbatim>\<open>{**base, **extra}\<close>: the entries of \<open>extra\<close> are stored one by one.\<close>

definition dict_merge :: "('k \<times> 'v) list \<Rightarrow> ('k \<times> 'v) list \<Rightarrow> ('k \<times> 'v) list" where
  "dict_merge base extra = fold (\<lambda>e d. dict_set d (fst e) (snd e)) extra base"

text \<open>\<^verbatim>\<open>d.get(k)\<close> on a JSON object; Python's \<open>None\<close> is \<open>JNull\<close>.\<close>

definition dget :: "jobj \<Rightarrow> string \<Rightarrow> json" where
  "dget d k = (case map_of d k of None \<Rightarrow> JNull | Some v \<Rightarrow> v)"

text \<open>Python truth value of a JSON value (\<^verbatim>\<open>if x\<close>, \<^verbatim>\<open>not x\<close>, \<^verbatim>\<open>x or y\<close>).\<close>

fun truthy :: "json \<Rightarrow> bool" where
  "truthy JNull = False"
| "truthy (JBool b) = b"
| "truthy (JInt n) = (n \<noteq> 0)"
| "truthy (JStr s) = (s \<noteq> [])"
| "truthy (JList xs) = (xs \<noteq> [])"
| "truthy (JObj d) = (d \<noteq> [])"

definition py_or :: "json \<Rightarrow> json \<Rightarrow> json" where
  "py_or a b = (if truthy a then a else b)"

text \<open>
  \<^verbatim>\<open>int(x)\<close>. How the builtin reads a string (whitespace, sign, underscores, digit
  characters, length limit) is not code of this repository: it is the parameter
  \<open>str_int\<close>, \<open>None\<close> where the builtin raises ValueError.
\<close>

fun py_int :: "(string \<Rightarrow> int option) \<Rightarrow> json \<Rightarrow> py_error + int" where
  "py_int str_int (JInt n) = Inr n"
| "py_int str_int (JBool b) = Inr (if b then 1 else 0)"
| "py_int str_int (JStr s) = (case str_int s of None \<Rightarrow> Inl ValueError | Some n \<Rightarrow> Inr n)"
| "py_int str_int JNull = Inl TypeError"
| "py_int str_int (JList xs) = Inl TypeError"
| "py_int str_int (JObj d) = Inl TypeError"

section \<open>The file index (file_index.py)\<close>

text \<open>One serving: the dict \<^verbatim>\<open>{"peer_id": peer_id, "meta": meta or {}}\<close> built by \<^verbatim>\<open>add_file\<close>.\<close>

record 'k serving_of =
  peer_id :: 'k
  meta :: jobj

type_synonym serving = "string serving_of"

text \<open>
  \<^verbatim>\<open>FileIndex\<close>: \<^verbatim>\<open>file_index: {file_name: [serving]}\<close> and
  \<^verbatim>\<open>peer_registry: {peer_id: record}\<close>. The lock makes every method one step; a
  method is a function from the state before to the state after.

  The class declares \<^verbatim>\<open>peer_id: str\<close> and \<^verbatim>\<open>file_name: str\<close>; \<open>FileIndex\<close> is the index
  at these types, and this section gives its methods at these types. The handlers
  pass whatever JSON value a message holds; the index with such keys, of the same
  shape, follows in its own section.
\<close>

record 'k index_of =
  file_index :: "('k \<times> 'k serving_of list) list"
  peer_registry :: "('k \<times> jobj) list"

type_synonym FileIndex = "string index_of"

definition FileIndex_init :: FileIndex where
  "FileIndex_init = \<lparr>file_index = [], peer_registry = []\<rparr>"

definition add_peer :: "FileIndex \<Rightarrow> string \<Rightarrow> jobj \<Rightarrow> FileIndex" where
  "add_peer st pid peer_info =
     st\<lparr>peer_registry :=
          dict_set (peer_registry st) pid (dict_merge [(''peer_id'', JStr pid)] peer_info)\<rparr>"

text \<open>
  One round of the loop of \<^verbatim>\<open>remove_peer\<close> over the snapshot
  \<^verbatim>\<open>list(self.file_index.items())\<close>: store the filtered list, then delete the key when
  the stored list is empty.
\<close>

definition sweep_step :: "string \<Rightarrow> string \<times> serving list \<Rightarrow>
    (string \<times> serving list) list \<Rightarrow> (string \<times> serving list) list" where
  "sweep_step pid item fi =
     (let kept = filter (\<lambda>p. peer_id p \<noteq> pid) (snd item);
          fi' = dict_set fi (fst item) kept
      in if kept = [] then dict_del fi' (fst item) else fi')"

definition remove_peer :: "FileIndex \<Rightarrow> string \<Rightarrow> FileIndex" where
  "remove_peer st pid =
     st\<lparr>peer_registry := dict_del (peer_registry st) pid,
        file_index := fold (sweep_step pid) (file_index st) (file_index st)\<rparr>"

definition get_peer :: "FileIndex \<Rightarrow> string \<Rightarrow> jobj option" where
  "get_peer st pid = dict_get (peer_registry st) pid"

text \<open>
  \<^verbatim>\<open>add_file\<close>: \<^verbatim>\<open>setdefault\<close> stores an empty list under a new name, and the entry
  is appended unless some serving of the name already has this peer id.
\<close>

definition add_file :: "FileIndex \<Rightarrow> string \<Rightarrow> string \<Rightarrow> jobj option \<Rightarrow> FileIndex" where
  "add_file st pid fname m =
     (let entry = \<lparr>peer_id = pid, meta = (case m of None \<Rightarrow> [] | Some d \<Rightarrow> d)\<rparr>;
          fi = (case dict_get (file_index st) fname of
                  None \<Rightarrow> dict_set (file_index st) fname []
                | Some ps \<Rightarrow> file_index st);
          peers = (case dict_get (file_index st) fname of None \<Rightarrow> [] | Some ps \<Rightarrow> ps)
      in if \<not> list_ex (\<lambda>p. peer_id p = pid) peers
         then st\<lparr>file_index := dict_set fi fname (peers @ [entry])\<rparr>
         else st\<lparr>file_index := fi\<rparr>)"

definition remove_file :: "FileIndex \<Rightarrow> string \<Rightarrow> string \<Rightarrow> FileIndex" where
  "remove_file st pid fname =
     (case dict_get (file_index st) fname of
        None \<Rightarrow> st
      | Some peers \<Rightarrow>
          if peers = [] then st
          else (let kept = filter (\<lambda>p. peer_id p \<noteq> pid) peers;
                    fi' = dict_set (file_index st) fname kept
                in if kept = [] then st\<lparr>file_index := dict_del fi' fname\<rparr>
                   else st\<lparr>file_index := fi'\<rparr>))"

text \<open>One entry of the result of \<^verbatim>\<open>get_peers_for_file\<close>: \<^verbatim>\<open>{"peer_id", "peer", "meta"}\<close>.\<close>

record 'k enriched_of =
  e_peer_id :: 'k
  peer :: jobj
  e_meta :: jobj

type_synonym enriched = "string enriched_of"

definition get_peers_for_file :: "FileIndex \<Rightarrow> string \<Rightarrow> enriched list" where
  "get_peers_for_file st fname =
     map (\<lambda>p. \<lparr>e_peer_id = peer_id p,
               peer = (case dict_get (peer_registry st) (peer_id p) of
                         None \<Rightarrow> [] | Some reg \<Rightarrow> reg),
               e_meta = meta p\<rparr>)
         (case dict_get (file_index st) fname of None \<Rightarrow> [] | Some ps \<Rightarrow> ps)"

definition list_files :: "'k index_of \<Rightarrow> 'k list" where
  "list_files st = map fst (file_index st)"

text \<open>The servings stored for a name, \<^verbatim>\<open>file_index.get(file_name, [])\<close>.\<close>

definition servings :: "FileIndex \<Rightarrow> string \<Rightarrow> serving list" where
  "servings st fname = (case dict_get (file_index st) fname of None \<Rightarrow> [] | Some ps \<Rightarrow> ps)"

text \<open>A call of one of the four mutating methods, and a sequence of calls on a new index.\<close>

datatype index_op =
    AddPeer string jobj
  | RemovePeer string
  | AddFile string string "jobj option"
  | RemoveFile string string

fun apply_index_op :: "index_op \<Rightarrow> FileIndex \<Rightarrow> FileIndex" where
  "apply_index_op (AddPeer pid info) st = add_peer st pid info"
| "apply_index_op (RemovePeer pid) st = remove_peer st pid"
| "apply_index_op (AddFile pid fname m) st = add_file st pid fname m"
| "apply_index_op (RemoveFile pid fname) st = remove_file st pid fname"

definition run_index_ops :: "index_op list \<Rightarrow> FileIndex" where
  "run_index_ops ops = fold apply_index_op ops FileIndex_init"

text \<open>Whether some serving of the name belongs to the peer: the test of \<^verbatim>\<open>add_file\<close>.\<close>

definition has_serving :: "FileIndex \<Rightarrow> string \<Rightarrow> string \<Rightarrow> bool" where
  "has_serving st pid fname = list_ex (\<lambda>p. peer_id p = pid) (servings st fname)"

text \<open>No name of the file index holds an empty list (invariant I4 of the data model).\<close>

definition no_empty_lists :: "(string \<times> serving list) list \<Rightarrow> bool" where
  "no_empty_lists fi = list_all (\<lambda>e. snd e \<noteq> []) fi"

section \<open>The file index with the keys the handlers pass\<close>

text \<open>
  The handlers call the index with the peer id and the file names of a decoded
  message. Any value that can be hashed works as a key of a Python dict: None, a
  boolean, an integer or a string. A list or a dict cannot be hashed, and the first
  dict operation on it raises TypeError.
\<close>

datatype pykey = KNone | KBool bool | KInt int | KStr string

fun key_of :: "json \<Rightarrow> pykey option" where
  "key_of JNull = Some KNone"
| "key_of (JBool b) = Some (KBool b)"
| "key_of (JInt n) = Some (KInt n)"
| "key_of (JStr s) = Some (KStr s)"
| "key_of (JList xs) = None"
| "key_of (JObj d) = None"

fun key_json :: "pykey \<Rightarrow> json" where
  "key_json KNone = JNull"
| "key_json (KBool b) = JBool b"
| "key_json (KInt n) = JInt n"
| "key_json (KStr s) = JStr s"

text \<open>
  Python's \<^verbatim>\<open>==\<close> on such values, which is also how a dict finds a key: a boolean
  is the integer 0 or 1 (\<^verbatim>\<open>True == 1\<close>, with the same hash), and otherwise values of
  different kinds differ.
\<close>

fun key_num :: "pykey \<Rightarrow> pykey" where
  "key_num (KBool b) = KInt (if b then 1 else 0)"
| "key_num KNone = KNone"
| "key_num (KInt n) = KInt n"
| "key_num (KStr s) = KStr s"

definition key_eq :: "pykey \<Rightarrow> pykey \<Rightarrow> bool" where
  "key_eq a b = (key_num a = key_num b)"

text \<open>\<^verbatim>\<open>d.get(k)\<close>: the value of the first entry whose key equals \<open>k\<close>.\<close>

primrec dict_get_any :: "(pykey \<times> 'v) list \<Rightarrow> pykey \<Rightarrow> 'v option" where
  "dict_get_any [] k = None"
| "dict_get_any (e # es) k = (if key_eq (fst e) k then Some (snd e) else dict_get_any es k)"

text \<open>
  \<^verbatim>\<open>d[k] = v\<close>: an entry whose key equals \<open>k\<close> keeps its key object and its position
  and gets the value; otherwise the new entry goes last.
\<close>

primrec dict_set_any :: "(pykey \<times> 'v) list \<Rightarrow> pykey \<Rightarrow> 'v \<Rightarrow> (pykey \<times> 'v) list" where
  "dict_set_any [] k v = [(k, v)]"
| "dict_set_any (e # es) k v =
     (if key_eq (fst e) k then (fst e, v) # es else e # dict_set_any es k v)"

type_synonym key_index = "pykey index_of"

text \<open>
  The methods the handlers call, as in the section before, with \<^verbatim>\<open>==\<close> and the dict
  operations of Python on these keys. The record of a peer holds the id as the
  message gave it.
\<close>

definition add_peer_any :: "key_index \<Rightarrow> pykey \<Rightarrow> jobj \<Rightarrow> key_index" where
  "add_peer_any st pid peer_info =
     st\<lparr>peer_registry :=
          dict_set_any (peer_registry st) pid
            (dict_merge [(''peer_id'', key_json pid)] peer_info)\<rparr>"

definition add_file_any :: "key_index \<Rightarrow> pykey \<Rightarrow> pykey \<Rightarrow> jobj option \<Rightarrow> key_index" where
  "add_file_any st pid fname m =
     (let entry = \<lparr>peer_id = pid, meta = (case m of None \<Rightarrow> [] | Some d \<Rightarrow> d)\<rparr>;
          fi = (case dict_get_any (file_index st) fname of
                  None \<Rightarrow> dict_set_any (file_index st) fname []
                | Some ps \<Rightarrow> file_index st);
          peers = (case dict_get_any (file_index st) fname of None \<Rightarrow> [] | Some ps \<Rightarrow> ps)
      in if \<not> list_ex (\<lambda>p. key_eq (peer_id p) pid) peers
         then st\<lparr>file_index := dict_set_any fi fname (peers @ [entry])\<rparr>
         else st\<lparr>file_index := fi\<rparr>)"

definition get_peers_for_file_any :: "key_index \<Rightarrow> pykey \<Rightarrow> pykey enriched_of list" where
  "get_peers_for_file_any st fname =
     map (\<lambda>p. \<lparr>e_peer_id = peer_id p,
               peer = (case dict_get_any (peer_registry st) (peer_id p) of
                         None \<Rightarrow> [] | Some reg \<Rightarrow> reg),
               e_meta = meta p\<rparr>)
         (case dict_get_any (file_index st) fname of None \<Rightarrow> [] | Some ps \<Rightarrow> ps)"

definition servings_any :: "key_index \<Rightarrow> pykey \<Rightarrow> pykey serving_of list" where
  "servings_any st fname =
     (case dict_get_any (file_index st) fname of None \<Rightarrow> [] | Some ps \<Rightarrow> ps)"

definition has_serving_any :: "key_index \<Rightarrow> pykey \<Rightarrow> pykey \<Rightarrow> bool" where
  "has_serving_any st pid fname = list_ex (\<lambda>p. key_eq (peer_id p) pid) (servings_any st fname)"

text \<open>
  An index with string keys, read as one with the keys the handlers pass. On strings
  \<^verbatim>\<open>==\<close> is equality, and the methods above do what the methods at the declared
  types do.
\<close>

definition str_serving :: "serving \<Rightarrow> pykey serving_of" where
  "str_serving s = \<lparr>peer_id = KStr (peer_id s), meta = meta s\<rparr>"

definition str_index :: "FileIndex \<Rightarrow> key_index" where
  "str_index st =
     \<lparr>file_index = map (\<lambda>e. (KStr (fst e), map str_serving (snd e))) (file_index st),
      peer_registry = map (\<lambda>e. (KStr (fst e), snd e)) (peer_registry st)\<rparr>"

section \<open>The replication planner (replication_service.py)\<close>

text \<open>A task: \<^verbatim>\<open>{"file_name": f, "source": {"peer_id", "host", "port"}}\<close>.\<close>

record 'k task_source_of =
  src_peer_id :: 'k
  host :: json
  port :: int

record 'k task_of =
  file_name :: 'k
  source :: "'k task_source_of"

type_synonym task = "string task_of"

text \<open>
  The loop of \<^verbatim>\<open>build_replication_tasks_for_peer\<close> over \<^verbatim>\<open>list_files()\<close>, with the
  tasks collected so far. \<^verbatim>\<open>int(port)\<close> may raise; the exception leaves the loop.
\<close>

fun build_tasks_loop :: "(string \<Rightarrow> int option) \<Rightarrow> int \<Rightarrow> FileIndex \<Rightarrow> string \<Rightarrow> int \<Rightarrow>
    string list \<Rightarrow> task list \<Rightarrow> py_error + task list" where
  "build_tasks_loop str_int R st target max_tasks [] tasks = Inr tasks"
| "build_tasks_loop str_int R st target max_tasks (fname # rest) tasks =
     (if R \<le> int (length (get_peers_for_file st fname))
      then build_tasks_loop str_int R st target max_tasks rest tasks
      else if list_ex (\<lambda>p. e_peer_id p = target) (get_peers_for_file st fname)
      then build_tasks_loop str_int R st target max_tasks rest tasks
      else (case get_peers_for_file st fname of
              [] \<Rightarrow> build_tasks_loop str_int R st target max_tasks rest tasks
            | src # others \<Rightarrow>
                (let peer_info = peer src;
                     h = py_or (dget peer_info ''host'') (dget peer_info ''ip'');
                     p = dget peer_info ''port''
                 in if \<not> truthy h \<or> \<not> truthy p
                    then build_tasks_loop str_int R st target max_tasks rest tasks
                    else (case py_int str_int p of
                            Inl e \<Rightarrow> Inl e
                          | Inr n \<Rightarrow>
                              (let tasks' = tasks @ [\<lparr>file_name = fname,
                                     source = \<lparr>src_peer_id = e_peer_id src, host = h, port = n\<rparr>\<rparr>]
                               in if max_tasks \<le> int (length tasks') then Inr tasks'
                                  else build_tasks_loop str_int R st target max_tasks rest tasks')))))"

definition build_replication_tasks_for_peer :: "(string \<Rightarrow> int option) \<Rightarrow> int \<Rightarrow> FileIndex \<Rightarrow>
    string \<Rightarrow> int \<Rightarrow> py_error + task list" where
  "build_replication_tasks_for_peer str_int R st target max_tasks =
     build_tasks_loop str_int R st target max_tasks (list_files st) []"

text \<open>
  What claim C3 says of a task returned for \<open>target\<close>: its file has fewer than \<open>R\<close>
  servings, none of them by \<open>target\<close>, and its source is the first serving peer of
  the file, whose registry record has a host (\<open>host\<close>, else \<open>ip\<close>) and a port that
  Python takes for true; the task carries that host and \<^verbatim>\<open>int(port)\<close>.
\<close>

definition task_sound :: "(string \<Rightarrow> int option) \<Rightarrow> int \<Rightarrow> FileIndex \<Rightarrow> string \<Rightarrow> task \<Rightarrow> bool" where
  "task_sound str_int R st target t =
     (case servings st (file_name t) of
        [] \<Rightarrow> False
      | s # others \<Rightarrow>
          int (length (s # others)) < R \<and>
          \<not> has_serving st target (file_name t) \<and>
          src_peer_id (source t) = peer_id s \<and>
          (case get_peer st (peer_id s) of
             None \<Rightarrow> False
           | Some reg \<Rightarrow>
               host (source t) = py_or (dget reg ''host'') (dget reg ''ip'') \<and>
               truthy (host (source t)) \<and>
               truthy (dget reg ''port'') \<and>
               py_int str_int (dget reg ''port'') = Inr (port (source t))))"

text \<open>
  The planner as \<^verbatim>\<open>register_peer\<close> calls it, on the index with the keys the handlers
  pass: the same loop.
\<close>

fun build_tasks_loop_any :: "(string \<Rightarrow> int option) \<Rightarrow> int \<Rightarrow> key_index \<Rightarrow> pykey \<Rightarrow> int \<Rightarrow>
    pykey list \<Rightarrow> pykey task_of list \<Rightarrow> py_error + pykey task_of list" where
  "build_tasks_loop_any str_int R st target max_tasks [] tasks = Inr tasks"
| "build_tasks_loop_any str_int R st target max_tasks (fname # rest) tasks =
     (if R \<le> int (length (get_peers_for_file_any st fname))
      then build_tasks_loop_any str_int R st target max_tasks rest tasks
      else if list_ex (\<lambda>p. key_eq (e_peer_id p) target) (get_peers_for_file_any st fname)
      then build_tasks_loop_any str_int R st target max_tasks rest tasks
      else (case get_peers_for_file_any st fname of
              [] \<Rightarrow> build_tasks_loop_any str_int R st target max_tasks rest tasks
            | src # others \<Rightarrow>
                (let peer_info = peer src;
                     h = py_or (dget peer_info ''host'') (dget peer_info ''ip'');
                     p = dget peer_info ''port''
                 in if \<not> truthy h \<or> \<not> truthy p
                    then build_tasks_loop_any str_int R st target max_tasks rest tasks
                    else (case py_int str_int p of
                            Inl e \<Rightarrow> Inl e
                          | Inr n \<Rightarrow>
                              (let tasks' = tasks @ [\<lparr>file_name = fname,
                                     source = \<lparr>src_peer_id = e_peer_id src, host = h, port = n\<rparr>\<rparr>]
                               in if max_tasks \<le> int (length tasks') then Inr tasks'
                                  else build_tasks_loop_any str_int R st target max_tasks rest
                                         tasks')))))"

definition build_replication_tasks_for_peer_any :: "(string \<Rightarrow> int option) \<Rightarrow> int \<Rightarrow> key_index \<Rightarrow>
    pykey \<Rightarrow> int \<Rightarrow> py_error + pykey task_of list" where
  "build_replication_tasks_for_peer_any str_int R st target max_tasks =
     build_tasks_loop_any str_int R st target max_tasks (list_files st) []"

text \<open>
  What one round of the loop does with a file, by the tests of the loop in their
  order: \<open>None\<close> when the file is passed over (enough servings, or one by \<open>target\<close>, or
  none, or a first serving peer without a host or a port that Python takes for true),
  \<open>Some (Inl e)\<close> when \<^verbatim>\<open>int(port)\<close> raises, \<open>Some (Inr t)\<close> when the task \<open>t\<close> is appended.
\<close>

definition round_task :: "(string \<Rightarrow> int option) \<Rightarrow> int \<Rightarrow> key_index \<Rightarrow> pykey \<Rightarrow> pykey \<Rightarrow>
    (py_error + pykey task_of) option" where
  "round_task str_int R st target fname =
     (if R \<le> int (length (get_peers_for_file_any st fname)) then None
      else if list_ex (\<lambda>p. key_eq (e_peer_id p) target) (get_peers_for_file_any st fname)
      then None
      else (case get_peers_for_file_any st fname of
              [] \<Rightarrow> None
            | src # others \<Rightarrow>
                (let peer_info = peer src;
                     h = py_or (dget peer_info ''host'') (dget peer_info ''ip'');
                     p = dget peer_info ''port''
                 in if \<not> truthy h \<or> \<not> truthy p then None
                    else (case py_int str_int p of
                            Inl e \<Rightarrow> Some (Inl e)
                          | Inr n \<Rightarrow>
                              Some (Inr \<lparr>file_name = fname,
                                source = \<lparr>src_peer_id = e_peer_id src, host = h, port = n\<rparr>\<rparr>)))))"

text \<open>The tasks of the files for which a round appends one, in the order of the files.\<close>

fun planned_tasks :: "(string \<Rightarrow> int option) \<Rightarrow> int \<Rightarrow> key_index \<Rightarrow> pykey \<Rightarrow> pykey list \<Rightarrow>
    pykey task_of list" where
  "planned_tasks str_int R st target [] = []"
| "planned_tasks str_int R st target (fname # rest) =
     (case round_task str_int R st target fname of
        Some (Inr t) \<Rightarrow> t # planned_tasks str_int R st target rest
      | _ \<Rightarrow> planned_tasks str_int R st target rest)"

text \<open>Entries and tasks with string ids, read with the keys the handlers pass.\<close>

definition str_enriched :: "enriched \<Rightarrow> pykey enriched_of" where
  "str_enriched e = \<lparr>e_peer_id = KStr (e_peer_id e), peer = peer e, e_meta = e_meta e\<rparr>"

definition str_task :: "task \<Rightarrow> pykey task_of" where
  "str_task t =
     \<lparr>file_name = KStr (file_name t),
      source = \<lparr>src_peer_id = KStr (src_peer_id (source t)), host = host (source t),
                port = port (source t)\<rparr>\<rparr>"

section \<open>Messages (protocol.py)\<close>

definition REGISTRY_RESPONSE :: string where
  "REGISTRY_RESPONSE = ''REGISTRY_RESPONSE''"

definition SEARCH_RESPONSE :: string where
  "SEARCH_RESPONSE = ''SEARCH_RESPONSE''"

text \<open>\<^verbatim>\<open>ProtocolHandler.create_message\<close>; the clock reading is the parameter \<open>now\<close>.\<close>

definition create_message :: "int \<Rightarrow> string \<Rightarrow> jobj \<Rightarrow> json \<Rightarrow> jobj" where
  "create_message now message_type payload pid =
     [(''type'', JStr message_type),
      (''timestamp'', JInt now),
      (''version'', JStr ''1.0''),
      (''peer_id'', pid),
      (''request_id'', JNull),
      (''payload'', JObj payload)]"

text \<open>\<^verbatim>\<open>d.get(k, default)\<close>.\<close>

definition dget_default :: "jobj \<Rightarrow> string \<Rightarrow> json \<Rightarrow> json" where
  "dget_default d k dflt = (case map_of d k of None \<Rightarrow> dflt | Some v \<Rightarrow> v)"

text \<open>
  The dicts of tasks and of enriched entries, as they go into a response: the ids
  and names are the values that were stored.
\<close>

definition task_json :: "pykey task_of \<Rightarrow> json" where
  "task_json t =
     JObj [(''file_name'', key_json (file_name t)),
           (''source'', JObj [(''peer_id'', key_json (src_peer_id (source t))),
                              (''host'', host (source t)),
                              (''port'', JInt (port (source t)))])]"

definition enriched_json :: "pykey enriched_of \<Rightarrow> json" where
  "enriched_json e =
     JObj [(''peer_id'', key_json (e_peer_id e)), (''peer'', JObj (peer e)),
           (''meta'', JObj (e_meta e))]"

section \<open>The registry handler (registry_service.py)\<close>

text \<open>
  The loop over \<^verbatim>\<open>files.items()\<close> when \<^verbatim>\<open>files\<close> is a dict. The keys of a decoded
  JSON object are strings.
\<close>

fun register_mapping :: "key_index \<Rightarrow> pykey \<Rightarrow> jobj \<Rightarrow> int \<Rightarrow> key_index \<times> int" where
  "register_mapping st pid [] registered = (st, registered)"
| "register_mapping st pid (e # rest) registered =
     register_mapping
       (add_file_any st pid (KStr (fst e)) (Some (case snd e of JObj d \<Rightarrow> d | _ \<Rightarrow> [])))
       pid rest (registered + 1)"

text \<open>
  The loop over \<^verbatim>\<open>files\<close> when it is a list. A name that Python takes for true is
  passed to \<^verbatim>\<open>add_file\<close> whatever its type; one that is a list or a dict makes
  \<^verbatim>\<open>setdefault\<close> raise TypeError, after the earlier items were stored.
\<close>

fun register_list :: "key_index \<Rightarrow> pykey \<Rightarrow> json list \<Rightarrow> int \<Rightarrow> (py_error + int) \<times> key_index" where
  "register_list st pid [] registered = (Inr registered, st)"
| "register_list st pid (item # rest) registered =
     (case item of
        JObj d \<Rightarrow>
          (let fname = py_or (dget d ''name'') (dget d ''file_name'');
               m = filter (\<lambda>e. fst e \<noteq> ''name'' \<and> fst e \<noteq> ''file_name'') d
           in if truthy fname
              then (case key_of fname of
                      None \<Rightarrow> (Inl TypeError, st)
                    | Some k \<Rightarrow>
                        register_list (add_file_any st pid k (Some m)) pid rest (registered + 1))
              else register_list st pid rest registered)
      | _ \<Rightarrow> register_list st pid rest registered)"

definition register_files :: "key_index \<Rightarrow> pykey \<Rightarrow> json \<Rightarrow> (py_error + int) \<times> key_index" where
  "register_files st pid files =
     (case files of
        JObj d \<Rightarrow> (Inr (snd (register_mapping st pid d 0)), fst (register_mapping st pid d 0))
      | JList items \<Rightarrow> register_list st pid items 0
      | _ \<Rightarrow> (Inr 0, st))"

definition resp_payload :: "int \<Rightarrow> pykey task_of list \<Rightarrow> jobj" where
  "resp_payload registered tasks =
     [(''status'', JStr ''ok''), (''registered_files'', JInt registered)] @
     (if tasks \<noteq> []
      then [(''replication_tasks'', JList (map task_json tasks)),
            (''replication_required'', JBool True)]
      else [(''replication_required'', JBool False)])"

text \<open>
  \<^verbatim>\<open>register_peer\<close> from \<^verbatim>\<open>add_peer\<close> on, for a peer id that can be hashed. The state
  is returned also when an exception leaves the handler, since the calls before it
  have changed the index.
\<close>

definition register_known_peer :: "(string \<Rightarrow> int option) \<Rightarrow> int \<Rightarrow> int \<Rightarrow> key_index \<Rightarrow>
    pykey \<Rightarrow> jobj \<Rightarrow> json \<Rightarrow> (py_error + jobj) \<times> key_index" where
  "register_known_peer str_int now R st pid peer_record files =
     (case register_files (add_peer_any st pid peer_record) pid files of
        (Inl e, st1) \<Rightarrow> (Inl e, st1)
      | (Inr registered, st1) \<Rightarrow>
          (case build_replication_tasks_for_peer_any str_int R st1 pid 5 of
             Inl e \<Rightarrow> (Inl e, st1)
           | Inr tasks \<Rightarrow>
               (Inr (create_message now REGISTRY_RESPONSE (resp_payload registered tasks)
                      (key_json pid)),
                st1)))"

text \<open>
  The record \<^verbatim>\<open>register_peer\<close> stores: \<^verbatim>\<open>{**peer_info, "host": final_host, "port": final_port}\<close>.
  The host and port the peer declares win over the address of the socket; a declared
  port that \<^verbatim>\<open>int()\<close> rejects falls back to the socket's port.
\<close>

definition make_peer_record :: "(string \<Rightarrow> int option) \<Rightarrow> jobj \<Rightarrow> string \<times> int \<Rightarrow> jobj" where
  "make_peer_record str_int pinfo client_addr =
     (let client_host = fst client_addr;
          client_port = snd client_addr;
          intended_host = dget pinfo ''host'';
          intended_port = dget pinfo ''port'';
          final_port =
            (if intended_port \<noteq> JNull
             then (case py_int str_int intended_port of Inr n \<Rightarrow> n | Inl e \<Rightarrow> client_port)
             else client_port);
          final_host = (if truthy intended_host then intended_host else JStr client_host)
      in dict_set (dict_set pinfo ''host'' final_host) ''port'' (JInt final_port))"

text \<open>
  \<^verbatim>\<open>register_peer\<close>. \<^verbatim>\<open>payload.get\<close> and \<^verbatim>\<open>peer_info.get\<close> raise AttributeError on a
  value that is not a dict; \<^verbatim>\<open>add_peer\<close> raises TypeError on a peer id that cannot be
  hashed. Any other peer id that Python takes for true is registered.
\<close>

definition register_peer :: "(string \<Rightarrow> int option) \<Rightarrow> int \<Rightarrow> int \<Rightarrow> key_index \<Rightarrow>
    jobj \<Rightarrow> string \<times> int \<Rightarrow> (py_error + jobj) \<times> key_index" where
  "register_peer str_int now R st message client_addr =
     (let pid = dget message ''peer_id'' in
      case dget_default message ''payload'' (JObj []) of
        JObj payload \<Rightarrow>
          (let files = dget_default payload ''files'' (JObj []);
               peer_info = dget_default payload ''peer'' (JObj [])
           in if \<not> truthy pid
              then (Inr (create_message now REGISTRY_RESPONSE
                          [(''status'', JStr ''error''), (''error'', JStr ''missing peer_id'')] pid),
                    st)
              else (case peer_info of
                      JObj pinfo \<Rightarrow>
                        (case key_of pid of
                           None \<Rightarrow> (Inl TypeError, st)
                         | Some k \<Rightarrow>
                             register_known_peer str_int now R st k
                               (make_peer_record str_int pinfo client_addr) files)
                    | _ \<Rightarrow> (Inl AttributeError, st)))
      | _ \<Rightarrow> (Inl AttributeError, st))"

text \<open>
  The elements of a \<^verbatim>\<open>files\<close> list that carry a name: objects with a \<open>name\<close> or a
  \<open>file_name\<close> key. The others are the ones claim C10 says are skipped.
\<close>

definition names_a_file :: "json \<Rightarrow> bool" where
  "names_a_file item =
     (case item of
        JObj d \<Rightarrow> dict_get d ''name'' \<noteq> None \<or> dict_get d ''file_name'' \<noteq> None
      | _ \<Rightarrow> False)"

section \<open>The search handler (search_service.py)\<close>

text \<open>
  From \<^verbatim>\<open>if not file_name\<close> on. A name that Python takes for true is looked up whatever
  its type; \<^verbatim>\<open>file_index.get\<close> raises TypeError on one that cannot be hashed.
\<close>

definition search_reply :: "int \<Rightarrow> key_index \<Rightarrow> jobj \<Rightarrow> json \<Rightarrow> py_error + jobj" where
  "search_reply now st message fname =
     (if \<not> truthy fname
      then Inr (create_message now SEARCH_RESPONSE
                 [(''status'', JStr ''error''), (''error'', JStr ''missing file_name''),
                  (''results'', JList [])]
                 (dget message ''peer_id''))
      else (case key_of fname of
              None \<Rightarrow> Inl TypeError
            | Some k \<Rightarrow>
                Inr (create_message now SEARCH_RESPONSE
                      [(''status'', JStr ''ok''), (''file_name'', fname),
                       (''results'', JList (map enriched_json (get_peers_for_file_any st k)))]
                      (dget message ''peer_id''))))"

text \<open>\<^verbatim>\<open>query if isinstance(query, str) else query.get("file_name")\<close>.\<close>

definition query_file_name :: "json \<Rightarrow> py_error + json" where
  "query_file_name query =
     (case query of
        JStr s \<Rightarrow> Inr (JStr s)
      | JObj q \<Rightarrow> Inr (dget q ''file_name'')
      | _ \<Rightarrow> Inl AttributeError)"

definition search :: "int \<Rightarrow> key_index \<Rightarrow> jobj \<Rightarrow> py_error + jobj" where
  "search now st message =
     (case dget_default message ''payload'' (JObj []) of
        JObj payload \<Rightarrow>
          (case query_file_name (dget_default payload ''query'' (JObj [])) of
             Inl e \<Rightarrow> Inl e
           | Inr fname \<Rightarrow> search_reply now st message fname)
      | _ \<Rightarrow> Inl AttributeError)"

text \<open>The payload of a response.\<close>

definition payload_of :: "jobj \<Rightarrow> jobj" where
  "payload_of msg = (case dget msg ''payload'' of JObj d \<Rightarrow> d | _ \<Rightarrow> [])"

section \<open>Facts about dicts\<close>

lemma dict_get_set: "dict_get (dict_set d k v) k' = (if k' = k then Some v else dict_get d k')"
  by (induction d) (auto simp: dict_get_def)

lemma dict_get_del: "dict_get (dict_del d k) k' = (if k' = k then None else dict_get d k')"
  by (induction d) (auto simp: dict_get_def dict_del_def)

lemma keys_dict_set:
  "map fst (dict_set d k v) = (if k \<in> set (map fst d) then map fst d else map fst d @ [k])"
  by (induction d) auto

lemma set_dict_set: "set (dict_set d k v) \<subseteq> insert (k, v) (set d)"
  by (induction d) auto

lemma set_dict_del: "set (dict_del d k) \<subseteq> set d"
  by (auto simp: dict_del_def)

lemma dict_get_None_iff: "dict_get d k = None \<longleftrightarrow> k \<notin> set (map fst d)"
  by (simp add: dict_get_def map_of_eq_None_iff)

lemma dict_get_SomeD: "dict_get d k = Some v \<Longrightarrow> (k, v) \<in> set d"
  by (simp add: dict_get_def map_of_SomeD)

lemma dict_merge_Cons:
  "dict_merge base (e # extra) = dict_merge (dict_set base (fst e) (snd e)) extra"
  by (simp add: dict_merge_def)

text \<open>What a merged dict holds, when the merged-in entries have distinct keys (as a dict has).\<close>

lemma dict_merge_get:
  "distinct (map fst extra) \<Longrightarrow>
   dict_get (dict_merge base extra) k =
     (case dict_get extra k of Some v \<Rightarrow> Some v | None \<Rightarrow> dict_get base k)"
proof (induction extra arbitrary: base)
  case Nil
  show ?case by (simp add: dict_merge_def dict_get_def)
next
  case (Cons e extra)
  from Cons.prems have d: "distinct (map fst extra)" and n: "fst e \<notin> set (map fst extra)"
    by simp_all
  from n have none: "dict_get extra (fst e) = None"
    by (simp add: dict_get_None_iff)
  have hd: "dict_get (e # extra) k = (if k = fst e then Some (snd e) else dict_get extra k)"
    by (cases e) (simp add: dict_get_def)
  show ?case
    unfolding dict_merge_Cons Cons.IH [OF d] hd
    using none by (simp add: dict_get_set split: option.splits)
qed

text \<open>The definitions a concrete call is evaluated with.\<close>

lemmas eval_defs = has_serving_def servings_def add_file_def add_peer_def remove_file_def
  remove_peer_def sweep_step_def get_peers_for_file_def get_peer_def list_files_def
  FileIndex_init_def dict_get_def dict_del_def dict_merge_def Let_def

section \<open>The file index: adding a file twice\<close>

lemma add_file_noop: "has_serving st p f \<Longrightarrow> add_file st p f m' = st"
  by (auto simp: has_serving_def servings_def add_file_def split: option.splits)

lemma has_serving_add_file: "has_serving (add_file st p f m) p f"
  by (auto simp: has_serving_def servings_def add_file_def dict_get_set list_ex_iff Let_def
      split: option.splits)

text \<open>The first call for a pair stores the meta it was given (\<open>{}\<close> for none).\<close>

lemma servings_add_file_new:
  "\<not> has_serving st p f \<Longrightarrow>
   servings (add_file st p f m) f =
     servings st f @ [\<lparr>peer_id = p, meta = (case m of None \<Rightarrow> [] | Some d \<Rightarrow> d)\<rparr>]"
  by (auto simp: has_serving_def servings_def add_file_def dict_get_set list_ex_iff Let_def
      split: option.splits)

lemma add_file_twice: "add_file (add_file st p f m) p f m' = add_file st p f m"
  by (rule add_file_noop) (rule has_serving_add_file)

text \<open>
  Claim C4. In a state where peer \<open>p\<close> already has a serving of file \<open>f\<close>, a further
  \<^verbatim>\<open>add_file(p, f, m')\<close> changes nothing: the state is the same, so the serving list
  of \<open>f\<close> has the same length and the serving of \<open>p\<close> keeps the meta it had, not \<open>m'\<close>.
\<close>

theorem add_file_duplicate_noop:
  "has_serving st p f \<Longrightarrow>
     add_file st p f m' = st \<and>
     length (servings (add_file st p f m') f) = length (servings st f) \<and>
     filter (\<lambda>s. peer_id s = p) (servings (add_file st p f m') f) =
       filter (\<lambda>s. peer_id s = p) (servings st f)"
  by (simp add: add_file_noop)

theorem add_file_duplicate_noop_witness:
  "has_serving (add_file FileIndex_init ''peer1'' ''a.txt'' (Some [(''size_bytes'', JInt 10)]))
     ''peer1'' ''a.txt'' \<and>
   add_file (add_file FileIndex_init ''peer1'' ''a.txt'' (Some [(''size_bytes'', JInt 10)]))
     ''peer1'' ''a.txt'' (Some [(''size_bytes'', JInt 99)]) =
   add_file FileIndex_init ''peer1'' ''a.txt'' (Some [(''size_bytes'', JInt 10)]) \<and>
   servings (add_file (add_file FileIndex_init ''peer1'' ''a.txt'' (Some [(''size_bytes'', JInt 10)]))
     ''peer1'' ''a.txt'' (Some [(''size_bytes'', JInt 99)])) ''a.txt'' =
   [\<lparr>peer_id = ''peer1'', meta = [(''size_bytes'', JInt 10)]\<rparr>]"
proof -
  have h: "has_serving (add_file FileIndex_init ''peer1'' ''a.txt'' (Some [(''size_bytes'', JInt 10)]))
     ''peer1'' ''a.txt''"
    by (simp add: eval_defs)
  have s: "servings (add_file FileIndex_init ''peer1'' ''a.txt'' (Some [(''size_bytes'', JInt 10)]))
     ''a.txt'' = [\<lparr>peer_id = ''peer1'', meta = [(''size_bytes'', JInt 10)]\<rparr>]"
    by (simp add: eval_defs)
  from add_file_duplicate_noop [OF h, of "Some [(''size_bytes'', JInt 99)]"] h s
  show ?thesis by simp
qed

section \<open>The file index: removing a peer\<close>

lemma sweep_step_get:
  "dict_get (sweep_step p item fi) k =
     (if k = fst item
      then (if filter (\<lambda>s. peer_id s \<noteq> p) (snd item) = [] then None
            else Some (filter (\<lambda>s. peer_id s \<noteq> p) (snd item)))
      else dict_get fi k)"
  by (simp add: sweep_step_def Let_def dict_get_set dict_get_del)

text \<open>
  After the sweep over \<open>items\<close>, a name among them holds only servings of other peers;
  any other name holds what it held before.
\<close>

lemma sweep_fold_get:
  "dict_get (fold (sweep_step p) items fi) k = Some ps \<Longrightarrow>
     (if k \<in> fst ` set items then p \<notin> peer_id ` set ps else dict_get fi k = Some ps)"
proof (induction items arbitrary: fi)
  case Nil
  then show ?case by simp
next
  case (Cons item items)
  from Cons.prems have "dict_get (fold (sweep_step p) items (sweep_step p item fi)) k = Some ps"
    by simp
  from Cons.IH [OF this] show ?case
    by (auto simp: sweep_step_get split: if_splits)
qed

lemma remove_peer_servings_clean:
  "p \<notin> peer_id ` set (servings (remove_peer st p) f)"
proof (cases "dict_get (file_index (remove_peer st p)) f")
  case None
  then show ?thesis by (simp add: servings_def)
next
  case (Some ps)
  then have g: "dict_get (fold (sweep_step p) (file_index st) (file_index st)) f = Some ps"
    by (simp add: remove_peer_def)
  have "f \<in> fst ` set (file_index st)"
  proof (rule ccontr)
    assume n: "f \<notin> fst ` set (file_index st)"
    with sweep_fold_get [OF g] have "dict_get (file_index st) f = Some ps" by simp
    then have "(f, ps) \<in> set (file_index st)" by (rule dict_get_SomeD)
    with n show False by force
  qed
  with sweep_fold_get [OF g] have "p \<notin> peer_id ` set ps" by simp
  with Some show ?thesis by (simp add: servings_def)
qed

lemma get_peers_ids: "map e_peer_id (get_peers_for_file st f) = map peer_id (servings st f)"
  by (simp add: get_peers_for_file_def servings_def)

text \<open>
  Claim C2. \<^verbatim>\<open>remove_peer(p)\<close> is one step from the state before to the state after,
  and in the state after \<^verbatim>\<open>get_peer(p)\<close> returns nothing and, for every file name,
  no entry of \<^verbatim>\<open>get_peers_for_file\<close> has peer id \<open>p\<close>: the registry entry and all the
  servings of \<open>p\<close> are gone together.
\<close>

theorem remove_peer_removes_everything:
  "get_peer (remove_peer st p) p = None \<and>
   p \<notin> set (map e_peer_id (get_peers_for_file (remove_peer st p) f))"
  using remove_peer_servings_clean [of p st f]
  by (simp add: get_peers_ids get_peer_def remove_peer_def dict_get_del)

section \<open>The file index: listed names and their servings\<close>

lemma dict_set_twice: "dict_set (dict_set d k v) k v' = dict_set d k v'"
  by (induction d) auto

lemma set_del_set: "set (dict_del (dict_set d k v) k) \<subseteq> set d"
  using set_dict_set [of d k v] by (auto simp: dict_del_def)

lemma add_peer_file_index: "file_index (add_peer st p r) = file_index st"
  by (simp add: add_peer_def)

lemma no_empty_lists_subset: "set a \<subseteq> set b \<Longrightarrow> no_empty_lists b \<Longrightarrow> no_empty_lists a"
  by (auto simp: no_empty_lists_def list_all_iff)

lemma no_empty_lists_set:
  "no_empty_lists d \<Longrightarrow> v \<noteq> [] \<Longrightarrow> no_empty_lists (dict_set d k v)"
  using set_dict_set [of d k v] by (auto simp: no_empty_lists_def list_all_iff)

lemma no_empty_lists_del_set: "no_empty_lists d \<Longrightarrow> no_empty_lists (dict_del (dict_set d k v) k)"
  by (rule no_empty_lists_subset [OF set_del_set])

lemma add_file_nonempty:
  "no_empty_lists (file_index st) \<Longrightarrow> no_empty_lists (file_index (add_file st p f m))"
  by (simp add: add_file_def Let_def dict_set_twice no_empty_lists_set split: option.splits)

lemma remove_file_nonempty:
  "no_empty_lists (file_index st) \<Longrightarrow> no_empty_lists (file_index (remove_file st p f))"
  by (simp add: remove_file_def Let_def no_empty_lists_set no_empty_lists_del_set
      split: option.splits)

lemma sweep_step_nonempty: "no_empty_lists fi \<Longrightarrow> no_empty_lists (sweep_step p item fi)"
  by (simp add: sweep_step_def Let_def no_empty_lists_set no_empty_lists_del_set)

lemma sweep_fold_nonempty:
  "no_empty_lists fi \<Longrightarrow> no_empty_lists (fold (sweep_step p) items fi)"
  by (induction items arbitrary: fi) (simp_all add: sweep_step_nonempty)

lemma remove_peer_nonempty:
  "no_empty_lists (file_index st) \<Longrightarrow> no_empty_lists (file_index (remove_peer st p))"
  by (simp add: remove_peer_def sweep_fold_nonempty)

lemma apply_index_op_nonempty:
  "no_empty_lists (file_index st) \<Longrightarrow> no_empty_lists (file_index (apply_index_op op st))"
  by (cases op)
     (simp_all add: add_peer_file_index add_file_nonempty remove_file_nonempty remove_peer_nonempty)

lemma fold_index_ops_nonempty:
  "no_empty_lists (file_index st) \<Longrightarrow>
   no_empty_lists (file_index (fold apply_index_op ops st))"
  by (induction ops arbitrary: st) (simp_all add: apply_index_op_nonempty)

lemma run_index_ops_nonempty: "no_empty_lists (file_index (run_index_ops ops))"
  unfolding run_index_ops_def
  by (rule fold_index_ops_nonempty) (simp add: FileIndex_init_def no_empty_lists_def)

lemma listed_iff_served:
  assumes "no_empty_lists (file_index st)"
  shows "f \<in> set (list_files st) \<longleftrightarrow> servings st f \<noteq> []"
proof
  assume "f \<in> set (list_files st)"
  then obtain ps where g: "dict_get (file_index st) f = Some ps"
    by (cases "dict_get (file_index st) f") (auto simp: dict_get_None_iff list_files_def)
  then have "(f, ps) \<in> set (file_index st)" by (rule dict_get_SomeD)
  with assms have "ps \<noteq> []" by (auto simp: no_empty_lists_def list_all_iff)
  with g show "servings st f \<noteq> []" by (simp add: servings_def)
next
  assume "servings st f \<noteq> []"
  then have "dict_get (file_index st) f \<noteq> None"
    by (auto simp: servings_def split: option.splits)
  then show "f \<in> set (list_files st)" by (simp add: dict_get_None_iff list_files_def)
qed

text \<open>
  Claim C5. In every state reached from a new index by any sequence of \<^verbatim>\<open>add_peer\<close>,
  \<^verbatim>\<open>remove_peer\<close>, \<^verbatim>\<open>add_file\<close> and \<^verbatim>\<open>remove_file\<close> calls, a file name is a key of the
  file index (is in \<^verbatim>\<open>list_files()\<close>) exactly when its serving list is not empty. The
  states after \<^verbatim>\<open>remove_file\<close> and \<^verbatim>\<open>remove_peer\<close> are among them, so a name whose
  last serving was removed is no longer a key.
\<close>

theorem listed_iff_nonempty_servings:
  "(f \<in> set (list_files (run_index_ops ops))) = (servings (run_index_ops ops) f \<noteq> [])"
  by (rule listed_iff_served) (rule run_index_ops_nonempty)

lemma distinct_dict_set: "distinct (map fst d) \<Longrightarrow> distinct (map fst (dict_set d k v))"
  by (simp add: keys_dict_set)

lemma distinct_dict_del: "distinct (map fst d) \<Longrightarrow> distinct (map fst (dict_del d k))"
  by (simp add: dict_del_def distinct_map_filter)

section \<open>The file index: what a reader of a file sees\<close>

text \<open>
  Claim C1, as the code has it. \<^verbatim>\<open>get_peers_for_file\<close> omits nothing: it returns one
  entry for each serving of the name, in the order of the servings, with the peer id
  and the meta of the serving. The \<open>peer\<close> field of an entry is the current registry
  record when the entry's peer id is registered, and the empty record \<open>{}\<close> when it
  is not.
\<close>

theorem get_peers_for_file_entries:
  "map e_peer_id (get_peers_for_file st f) = map peer_id (servings st f) \<and>
   map e_meta (get_peers_for_file st f) = map meta (servings st f) \<and>
   length (get_peers_for_file st f) = length (servings st f) \<and>
   (\<forall>e \<in> set (get_peers_for_file st f).
      peer e = (case get_peer st (e_peer_id e) of None \<Rightarrow> [] | Some reg \<Rightarrow> reg))"
  by (auto simp: get_peers_for_file_def servings_def get_peer_def)

text \<open>
  The claim as stated fails: a serving of a peer that is not in the registry is
  returned, with the empty record as its \<open>peer\<close> field.
\<close>

theorem get_peers_for_file_broken_reference:
  "get_peers_for_file (add_file FileIndex_init ''peer1'' ''a.txt'' None) ''a.txt'' =
     [\<lparr>e_peer_id = ''peer1'', peer = [], e_meta = []\<rparr>] \<and>
   get_peer (add_file FileIndex_init ''peer1'' ''a.txt'' None) ''peer1'' = None"
  by (simp add: eval_defs)

section \<open>The file index: registering a known peer again\<close>

lemma keys_dict_set_present:
  "dict_get d k \<noteq> None \<Longrightarrow> map fst (dict_set d k v) = map fst d"
  by (simp add: keys_dict_set dict_get_None_iff)

text \<open>
  Claim C9. For a peer id \<open>p\<close> already in the registry, \<^verbatim>\<open>add_peer(p, r)\<close> leaves the
  file index as it was (every name, every serving, every meta), keeps the registered
  ids and the records of the other peers, and stores for \<open>p\<close> the record
  \<^verbatim>\<open>{"peer_id": p, **r}\<close>: every key of \<open>r\<close> with the value \<open>r\<close> gives it, and
  \<open>peer_id\<close> (as \<open>p\<close> unless \<open>r\<close> has that key itself); nothing of the old record.
\<close>

theorem add_peer_replaces_record:
  "get_peer st p \<noteq> None \<Longrightarrow>
     file_index (add_peer st p r) = file_index st \<and>
     servings (add_peer st p r) f = servings st f \<and>
     list_files (add_peer st p r) = list_files st \<and>
     map fst (peer_registry (add_peer st p r)) = map fst (peer_registry st) \<and>
     get_peer (add_peer st p r) p = Some (dict_merge [(''peer_id'', JStr p)] r) \<and>
     (q \<noteq> p \<longrightarrow> get_peer (add_peer st p r) q = get_peer st q) \<and>
     (distinct (map fst r) \<longrightarrow>
        dict_get (dict_merge [(''peer_id'', JStr p)] r) k =
          (case dict_get r k of Some v \<Rightarrow> Some v
           | None \<Rightarrow> if k = ''peer_id'' then Some (JStr p) else None))"
  by (auto simp: add_peer_def servings_def list_files_def get_peer_def dict_get_set
        keys_dict_set_present dict_merge_get split: option.splits)
     (simp_all add: dict_get_def)

theorem get_peers_for_file_entries_witness:
  "\<lparr>e_peer_id = ''ghost'', peer = [], e_meta = []\<rparr>
     \<in> set (get_peers_for_file
         (add_file (add_file (add_peer FileIndex_init ''peer1'' [(''host'', JStr ''127.0.0.1'')])
            ''peer1'' ''a.txt'' None) ''ghost'' ''a.txt'' None) ''a.txt'') \<and>
   \<lparr>e_peer_id = ''peer1'', peer = [(''peer_id'', JStr ''peer1''), (''host'', JStr ''127.0.0.1'')],
     e_meta = []\<rparr>
     \<in> set (get_peers_for_file
         (add_file (add_file (add_peer FileIndex_init ''peer1'' [(''host'', JStr ''127.0.0.1'')])
            ''peer1'' ''a.txt'' None) ''ghost'' ''a.txt'' None) ''a.txt'') \<and>
   length (get_peers_for_file
         (add_file (add_file (add_peer FileIndex_init ''peer1'' [(''host'', JStr ''127.0.0.1'')])
            ''peer1'' ''a.txt'' None) ''ghost'' ''a.txt'' None) ''a.txt'') = 2 \<and>
   get_peer (add_file (add_file (add_peer FileIndex_init ''peer1'' [(''host'', JStr ''127.0.0.1'')])
            ''peer1'' ''a.txt'' None) ''ghost'' ''a.txt'' None) ''ghost'' = None \<and>
   get_peer (add_file (add_file (add_peer FileIndex_init ''peer1'' [(''host'', JStr ''127.0.0.1'')])
            ''peer1'' ''a.txt'' None) ''ghost'' ''a.txt'' None) ''peer1'' =
     Some [(''peer_id'', JStr ''peer1''), (''host'', JStr ''127.0.0.1'')]"
proof -
  let ?st = "add_file (add_file (add_peer FileIndex_init ''peer1'' [(''host'', JStr ''127.0.0.1'')])
            ''peer1'' ''a.txt'' None) ''ghost'' ''a.txt'' None"
  have r: "get_peers_for_file ?st ''a.txt'' =
     [\<lparr>e_peer_id = ''peer1'', peer = [(''peer_id'', JStr ''peer1''), (''host'', JStr ''127.0.0.1'')],
        e_meta = []\<rparr>,
      \<lparr>e_peer_id = ''ghost'', peer = [], e_meta = []\<rparr>]"
    by (simp add: eval_defs)
  have s: "length (servings ?st ''a.txt'') = 2"
    by (simp add: eval_defs)
  have g: "get_peer ?st ''ghost'' = None"
    by (simp add: eval_defs)
  have g': "get_peer ?st ''peer1'' = Some [(''peer_id'', JStr ''peer1''), (''host'', JStr ''127.0.0.1'')]"
    by (simp add: eval_defs)
  from get_peers_for_file_entries [of ?st "''a.txt''"] r s g g'
  show ?thesis by simp
qed

theorem add_peer_replaces_record_witness:
  "get_peer (add_file (add_peer FileIndex_init ''peer1''
       [(''host'', JStr ''127.0.0.1''), (''port'', JInt 7100)]) ''peer1'' ''a.txt'' None) ''peer1'' \<noteq> None \<and>
   distinct (map fst [(''host'', JStr ''10.0.0.2''), (''port'', JInt 7200)]) \<and>
   ''peer2'' \<noteq> ''peer1'' \<and>
   servings (add_peer (add_file (add_peer FileIndex_init ''peer1''
       [(''host'', JStr ''127.0.0.1''), (''port'', JInt 7100)]) ''peer1'' ''a.txt'' None) ''peer1''
       [(''host'', JStr ''10.0.0.2''), (''port'', JInt 7200)]) ''a.txt'' =
     [\<lparr>peer_id = ''peer1'', meta = []\<rparr>] \<and>
   get_peer (add_peer (add_file (add_peer FileIndex_init ''peer1''
       [(''host'', JStr ''127.0.0.1''), (''port'', JInt 7100)]) ''peer1'' ''a.txt'' None) ''peer1''
       [(''host'', JStr ''10.0.0.2''), (''port'', JInt 7200)]) ''peer1'' =
     Some [(''peer_id'', JStr ''peer1''), (''host'', JStr ''10.0.0.2''), (''port'', JInt 7200)] \<and>
   get_peer (add_peer (add_file (add_peer FileIndex_init ''peer1''
       [(''host'', JStr ''127.0.0.1''), (''port'', JInt 7100)]) ''peer1'' ''a.txt'' None) ''peer1''
       [(''host'', JStr ''10.0.0.2''), (''port'', JInt 7200)]) ''peer2'' = None"
proof -
  let ?st = "add_file (add_peer FileIndex_init ''peer1''
       [(''host'', JStr ''127.0.0.1''), (''port'', JInt 7100)]) ''peer1'' ''a.txt'' None"
  let ?r = "[(''host'', JStr ''10.0.0.2''), (''port'', JInt 7200)]"
  have h: "get_peer ?st ''peer1'' \<noteq> None"
    by (simp add: eval_defs)
  have s: "servings ?st ''a.txt'' = [\<lparr>peer_id = ''peer1'', meta = []\<rparr>]"
    by (simp add: eval_defs)
  have g: "get_peer ?st ''peer2'' = None"
    by (simp add: eval_defs)
  have m: "dict_merge [(''peer_id'', JStr ''peer1'')] ?r =
      [(''peer_id'', JStr ''peer1''), (''host'', JStr ''10.0.0.2''), (''port'', JInt 7200)]"
    by (simp add: dict_merge_def)
  from add_peer_replaces_record [OF h, of ?r "''a.txt''" "''peer2''" "''host''"] h s g m
  show ?thesis by simp
qed

section \<open>The replication planner: the tasks built for a peer\<close>

lemma get_peers_cases:
  "get_peers_for_file st f = map (\<lambda>p. \<lparr>e_peer_id = peer_id p,
               peer = (case get_peer st (peer_id p) of None \<Rightarrow> [] | Some reg \<Rightarrow> reg),
               e_meta = meta p\<rparr>) (servings st f)"
  by (simp add: get_peers_for_file_def servings_def get_peer_def)

lemma dget_Nil: "dget [] k = JNull"
  by (simp add: dget_def)

lemma task_sound_step:
  assumes "\<not> R \<le> int (length (get_peers_for_file st f))"
    and "\<not> list_ex (\<lambda>p. e_peer_id p = target) (get_peers_for_file st f)"
    and "get_peers_for_file st f = src # others"
    and "truthy (py_or (dget (peer src) ''host'') (dget (peer src) ''ip''))"
    and "truthy (dget (peer src) ''port'')"
    and "py_int str_int (dget (peer src) ''port'') = Inr n"
  shows "task_sound str_int R st target
     \<lparr>file_name = f, source = \<lparr>src_peer_id = e_peer_id src,
         host = py_or (dget (peer src) ''host'') (dget (peer src) ''ip''), port = n\<rparr>\<rparr>"
proof -
  from assms(3) obtain s ss where sv: "servings st f = s # ss"
    and src: "src = \<lparr>e_peer_id = peer_id s,
               peer = (case get_peer st (peer_id s) of None \<Rightarrow> [] | Some reg \<Rightarrow> reg),
               e_meta = meta s\<rparr>"
    by (auto simp: get_peers_cases)
  from assms(1) have len: "int (length (servings st f)) < R"
    by (simp add: get_peers_cases)
  from assms(2) have nt: "\<not> has_serving st target f"
    by (simp add: get_peers_cases has_serving_def list_ex_iff)
  from assms(5) src obtain reg where reg: "get_peer st (peer_id s) = Some reg"
    by (cases "get_peer st (peer_id s)") (auto simp: dget_Nil)
  with src have p: "peer src = reg" by simp
  show ?thesis
    using sv len nt reg assms(4,5,6) src p
    by (simp add: task_sound_def)
qed

text \<open>One round of the loop: the file is passed over, or \<^verbatim>\<open>int(port)\<close> raises, or a sound task is added.\<close>

lemma build_tasks_loop_round:
  "build_tasks_loop str_int R st target max_tasks (f # fs) acc =
     build_tasks_loop str_int R st target max_tasks fs acc \<or>
   (\<exists>e. build_tasks_loop str_int R st target max_tasks (f # fs) acc = Inl e) \<or>
   (\<exists>t. task_sound str_int R st target t \<and> file_name t = f \<and>
      build_tasks_loop str_int R st target max_tasks (f # fs) acc =
        (if max_tasks \<le> int (length (acc @ [t])) then Inr (acc @ [t])
         else build_tasks_loop str_int R st target max_tasks fs (acc @ [t])))"
proof (cases "R \<le> int (length (get_peers_for_file st f)) \<or>
       list_ex (\<lambda>p. e_peer_id p = target) (get_peers_for_file st f)")
  case True
  then show ?thesis by auto
next
  case False
  then have nR: "\<not> R \<le> int (length (get_peers_for_file st f))"
    and nT: "\<not> list_ex (\<lambda>p. e_peer_id p = target) (get_peers_for_file st f)" by simp_all
  show ?thesis
  proof (cases "get_peers_for_file st f")
    case Nil
    with nR nT show ?thesis by simp
  next
    case first: (Cons src others)
    let ?h = "py_or (dget (peer src) ''host'') (dget (peer src) ''ip'')"
    let ?p = "dget (peer src) ''port''"
    show ?thesis
    proof (cases "truthy ?h \<and> truthy ?p")
      case False
      with nR nT first show ?thesis by (auto simp: Let_def)
    next
      case True
      then have th: "truthy ?h" and tp: "truthy ?p" by simp_all
      show ?thesis
      proof (cases "py_int str_int ?p")
        case (Inl e)
        with nR nT first th tp show ?thesis by (simp add: Let_def)
      next
        case (Inr n)
        let ?t = "\<lparr>file_name = f, source = \<lparr>src_peer_id = e_peer_id src, host = ?h, port = n\<rparr>\<rparr>"
        have ok: "task_sound str_int R st target ?t"
          by (rule task_sound_step [OF nR nT first th tp Inr])
        have "build_tasks_loop str_int R st target max_tasks (f # fs) acc =
            (if max_tasks \<le> int (length (acc @ [?t])) then Inr (acc @ [?t])
             else build_tasks_loop str_int R st target max_tasks fs (acc @ [?t]))"
          using nR nT first th tp Inr by (simp add: Let_def)
        with ok show ?thesis by force
      qed
    qed
  qed
qed

lemma build_tasks_loop_sound:
  "build_tasks_loop str_int R st target max_tasks fs acc = Inr tasks \<Longrightarrow>
   list_all (task_sound str_int R st target) acc \<Longrightarrow>
   list_all (task_sound str_int R st target) tasks"
proof (induction fs arbitrary: acc)
  case Nil
  then show ?case by simp
next
  case (Cons f fs)
  from build_tasks_loop_round [of str_int R st target max_tasks f fs acc] Cons.prems(1)
  consider
    (skip) "build_tasks_loop str_int R st target max_tasks fs acc = Inr tasks"
  | (add) t where "task_sound str_int R st target t"
      "Inr tasks = (if max_tasks \<le> int (length (acc @ [t])) then Inr (acc @ [t])
         else build_tasks_loop str_int R st target max_tasks fs (acc @ [t]))"
    by auto
  then show ?case
  proof cases
    case skip
    from Cons.IH [OF skip Cons.prems(2)] show ?thesis .
  next
    case add
    from add(1) Cons.prems(2) have acc': "list_all (task_sound str_int R st target) (acc @ [t])"
      by simp
    show ?thesis
    proof (cases "max_tasks \<le> int (length (acc @ [t]))")
      case True
      with add(2) acc' show ?thesis by simp
    next
      case False
      with add(2) have "build_tasks_loop str_int R st target max_tasks fs (acc @ [t]) = Inr tasks"
        by simp
      from Cons.IH [OF this acc'] show ?thesis .
    qed
  qed
qed

lemma build_tasks_loop_length:
  "build_tasks_loop str_int R st target max_tasks fs acc = Inr tasks \<Longrightarrow>
   int (length tasks) \<le> max max_tasks (int (length acc) + 1)"
proof (induction fs arbitrary: acc)
  case Nil
  then show ?case by simp
next
  case (Cons f fs)
  from build_tasks_loop_round [of str_int R st target max_tasks f fs acc] Cons.prems(1)
  consider
    (skip) "build_tasks_loop str_int R st target max_tasks fs acc = Inr tasks"
  | (add) t where
      "Inr tasks = (if max_tasks \<le> int (length (acc @ [t])) then Inr (acc @ [t])
         else build_tasks_loop str_int R st target max_tasks fs (acc @ [t]))"
    by auto
  then show ?case
  proof cases
    case skip
    from Cons.IH [OF skip] show ?thesis .
  next
    case add
    show ?thesis
    proof (cases "max_tasks \<le> int (length (acc @ [t]))")
      case True
      with add show ?thesis by simp
    next
      case False
      with add have "build_tasks_loop str_int R st target max_tasks fs (acc @ [t]) = Inr tasks"
        by simp
      from Cons.IH [OF this] False show ?thesis by simp
    qed
  qed
qed

text \<open>
  Every task returned is as claim C3 describes it, and there are at most \<open>max_tasks\<close> of
  them when \<open>max_tasks\<close> is 1 or more.
\<close>

lemma build_tasks_sound:
  "build_replication_tasks_for_peer str_int R st target max_tasks = Inr tasks \<Longrightarrow>
     list_all (task_sound str_int R st target) tasks \<and>
     int (length tasks) \<le> max max_tasks 1"
  using build_tasks_loop_sound [of str_int R st target max_tasks "list_files st" "[]" tasks]
    build_tasks_loop_length [of str_int R st target max_tasks "list_files st" "[]" tasks]
  by (simp add: build_replication_tasks_for_peer_def)

lemma build_tasks_bounded:
  "build_replication_tasks_for_peer str_int R st target max_tasks = Inr tasks \<Longrightarrow>
   1 \<le> max_tasks \<Longrightarrow> int (length tasks) \<le> max_tasks"
  using build_tasks_sound [of str_int R st target max_tasks tasks] by simp

text \<open>
  Claim C3 says the returned list has at most \<open>max_tasks\<close> tasks. The loop tests
  \<^verbatim>\<open>len(tasks) >= max_tasks\<close> only after appending, so with \<open>max_tasks = 0\<close> the first
  eligible file still yields a task: with replication factor 2 and \<open>f.bin\<close> served by
  \<open>peer1\<close> alone, the call for \<open>peer2\<close> with bound 0 returns one task.
\<close>

theorem build_tasks_zero_bound:
  "build_replication_tasks_for_peer (\<lambda>s. None) 2
     (add_file (add_peer FileIndex_init ''peer1'' [(''host'', JStr ''127.0.0.1''), (''port'', JInt 7100)])
        ''peer1'' ''f.bin'' None)
     ''peer2'' 0 =
   Inr [\<lparr>file_name = ''f.bin'',
          source = \<lparr>src_peer_id = ''peer1'', host = JStr ''127.0.0.1'', port = 7100\<rparr>\<rparr>]"
  by (simp add: build_replication_tasks_for_peer_def eval_defs dget_def py_or_def)

section \<open>Facts about the keys the handlers pass\<close>

lemma key_eq_refl: "key_eq k k"
  by (simp add: key_eq_def)

lemma key_eq_sym: "key_eq a b \<Longrightarrow> key_eq b a"
  by (simp add: key_eq_def)

lemma key_eq_trans: "key_eq a b \<Longrightarrow> key_eq b c \<Longrightarrow> key_eq a c"
  by (simp add: key_eq_def)

lemma key_eq_KStr: "key_eq (KStr a) (KStr b) = (a = b)"
  by (simp add: key_eq_def)

lemma key_json_of: "key_of j = Some k \<Longrightarrow> key_json k = j"
  by (cases j) auto

lemma dict_get_any_set:
  "dict_get_any (dict_set_any d t v) k = (if key_eq t k then Some v else dict_get_any d k)"
proof (induction d)
  case Nil
  show ?case by simp
next
  case (Cons e d)
  show ?case
    using Cons.IH by (auto simp: key_eq_def)
qed

lemma keys_dict_set_any:
  "map fst (dict_set_any d k v) =
     (if dict_get_any d k = None then map fst d @ [k] else map fst d)"
  by (induction d) auto

text \<open>The definitions a concrete call of a handler is evaluated with.\<close>

lemmas any_defs = add_peer_any_def add_file_any_def get_peers_for_file_any_def servings_any_def
  has_serving_any_def key_eq_def build_replication_tasks_for_peer_any_def round_task_def

lemmas msg_defs = register_peer_def create_message_def dget_def dget_default_def payload_of_def
  REGISTRY_RESPONSE_def SEARCH_RESPONSE_def search_def search_reply_def query_file_name_def
  enriched_json_def task_json_def

lemmas reg_defs = register_known_peer_def register_files_def make_peer_record_def
  resp_payload_def py_or_def list_files_def dict_merge_def Let_def

section \<open>The registry handler: a request without a peer id\<close>

text \<open>
  \<^verbatim>\<open>payload.get\<close> is called before the peer id is looked at: with a payload that is not
  an object the handler raises, whatever the peer id.
\<close>

lemma register_peer_payload_not_object:
  "dget_default message ''payload'' (JObj []) = v \<Longrightarrow> (\<forall>d. v \<noteq> JObj d) \<Longrightarrow>
   register_peer str_int now R st message client_addr = (Inl AttributeError, st)"
  by (cases v) (simp_all add: register_peer_def Let_def)

text \<open>
  With a payload that is an object, or none, a peer id that is absent, empty or
  otherwise false gets the error response, and the index stays as it was.
\<close>

lemma register_peer_no_peer_id:
  "dget_default message ''payload'' (JObj []) = JObj payload \<Longrightarrow>
   \<not> truthy (dget message ''peer_id'') \<Longrightarrow>
     register_peer str_int now R st message client_addr =
       (Inr (create_message now REGISTRY_RESPONSE
              [(''status'', JStr ''error''), (''error'', JStr ''missing peer_id'')]
              (dget message ''peer_id'')), st)"
  by (simp add: register_peer_def Let_def)

text \<open>
  Claim C6 says that every REGISTRY_REQUEST whose \<open>peer_id\<close> is absent or empty is
  answered with status \<open>error\<close> and error \<open>missing peer_id\<close>. The request
  \<^verbatim>\<open>{"type": "REGISTRY_REQUEST", "peer_id": "", "payload": null}\<close> is not: the handler
  raises AttributeError at \<^verbatim>\<open>payload.get\<close> and returns no response. The index is
  unchanged.
\<close>

theorem register_peer_null_payload_raises:
  "register_peer (\<lambda>s. None) 1000 2 \<lparr>file_index = [], peer_registry = []\<rparr>
     [(''type'', JStr ''REGISTRY_REQUEST''), (''peer_id'', JStr ''''), (''payload'', JNull)]
     (''127.0.0.1'', 50000) =
   (Inl AttributeError, \<lparr>file_index = [], peer_registry = []\<rparr>)"
  by (simp add: register_peer_def dget_default_def dget_def)

text \<open>The same request without the \<open>payload\<close> key is answered as the claim says.\<close>

lemma register_peer_absent_payload_answers:
  "register_peer (\<lambda>s. None) 1000 2 \<lparr>file_index = [], peer_registry = []\<rparr>
     [(''type'', JStr ''REGISTRY_REQUEST''), (''peer_id'', JStr '''')]
     (''127.0.0.1'', 50000) =
   (Inr [(''type'', JStr ''REGISTRY_RESPONSE''), (''timestamp'', JInt 1000),
         (''version'', JStr ''1.0''), (''peer_id'', JStr ''''), (''request_id'', JNull),
         (''payload'', JObj [(''status'', JStr ''error''), (''error'', JStr ''missing peer_id'')])],
    \<lparr>file_index = [], peer_registry = []\<rparr>)"
  by (simp add: msg_defs)

section \<open>The search handler\<close>

text \<open>
  Claim C7 says that a query that is neither a non-empty string nor an object with a
  non-empty \<open>file_name\<close> is answered with status \<open>error\<close>. The request with
  \<^verbatim>\<open>"payload": {"query": null}\<close> is not: \<^verbatim>\<open>query.get\<close> raises AttributeError and the
  handler returns no response.
\<close>

theorem search_null_query_raises:
  "search 1000 \<lparr>file_index = [], peer_registry = []\<rparr>
     [(''type'', JStr ''SEARCH_REQUEST''), (''peer_id'', JStr ''peer2''),
      (''payload'', JObj [(''query'', JNull)])] = Inl AttributeError"
  by (simp add: msg_defs)

text \<open>The same request without the \<open>query\<close> key is answered as the claim says.\<close>

lemma search_absent_query_answers:
  "search 1000 \<lparr>file_index = [], peer_registry = []\<rparr>
     [(''type'', JStr ''SEARCH_REQUEST''), (''peer_id'', JStr ''peer2''),
      (''payload'', JObj [])] =
   Inr [(''type'', JStr ''SEARCH_RESPONSE''), (''timestamp'', JInt 1000),
        (''version'', JStr ''1.0''), (''peer_id'', JStr ''peer2''), (''request_id'', JNull),
        (''payload'', JObj [(''status'', JStr ''error''), (''error'', JStr ''missing file_name''),
                           (''results'', JList [])])]"
  by (simp add: msg_defs)

lemma get_peers_any_absent:
  "dict_get_any (file_index st) k = None \<Longrightarrow> get_peers_for_file_any st k = []"
  by (simp add: get_peers_for_file_any_def)

text \<open>Every query that is neither a string nor an object ends in the AttributeError.\<close>

lemma search_query_not_str_or_object:
  "dget_default message ''payload'' (JObj []) = JObj payload \<Longrightarrow>
   dget_default payload ''query'' (JObj []) = q \<Longrightarrow> (\<forall>s. q \<noteq> JStr s) \<Longrightarrow> (\<forall>d. q \<noteq> JObj d) \<Longrightarrow>
   search now st message = Inl AttributeError"
  by (cases q) (simp_all add: search_def query_file_name_def)

text \<open>
  For a query that is a string or an object (or absent) the handler does what the
  claim says: status \<open>error\<close> for a file name that is absent, empty or otherwise
  false, and else status \<open>ok\<close> with the entries of \<^verbatim>\<open>get_peers_for_file\<close>; a name that
  cannot be hashed makes the lookup raise TypeError.
\<close>

lemma search_str_or_object_query:
  assumes "dget_default message ''payload'' (JObj []) = JObj payload"
    and "query_file_name (dget_default payload ''query'' (JObj [])) = Inr fname"
  shows "search now st message =
     (if \<not> truthy fname
      then Inr (create_message now SEARCH_RESPONSE
                 [(''status'', JStr ''error''), (''error'', JStr ''missing file_name''),
                  (''results'', JList [])]
                 (dget message ''peer_id''))
      else (case key_of fname of
              None \<Rightarrow> Inl TypeError
            | Some k \<Rightarrow>
                Inr (create_message now SEARCH_RESPONSE
                      [(''status'', JStr ''ok''), (''file_name'', fname),
                       (''results'', JList (map enriched_json (get_peers_for_file_any st k)))]
                      (dget message ''peer_id''))))"
  using assms by (simp add: search_def search_reply_def)

section \<open>The replication planner, as the registry handler calls it\<close>

text \<open>The loop, one round at a time.\<close>

lemma build_tasks_loop_any_round:
  "build_tasks_loop_any str_int R st target max_tasks (f # fs) acc =
     (case round_task str_int R st target f of
        None \<Rightarrow> build_tasks_loop_any str_int R st target max_tasks fs acc
      | Some (Inl e) \<Rightarrow> Inl e
      | Some (Inr t) \<Rightarrow>
          if max_tasks \<le> int (length (acc @ [t])) then Inr (acc @ [t])
          else build_tasks_loop_any str_int R st target max_tasks fs (acc @ [t]))"
  by (simp add: round_task_def Let_def split: list.splits sum.splits)

declare build_tasks_loop_any.simps(2) [simp del]

text \<open>
  When the loop returns, it returns the tasks of the first files for which a round
  appends one: as many as \<open>max_tasks\<close>, and one if \<open>max_tasks\<close> is less than one.
\<close>

lemma build_tasks_loop_any_planned:
  "build_tasks_loop_any str_int R st target max_tasks fs acc = Inr tasks \<Longrightarrow>
   int (length acc) < max max_tasks 1 \<Longrightarrow>
   tasks = acc @ take (nat (max max_tasks 1) - length acc) (planned_tasks str_int R st target fs)"
proof (induction fs arbitrary: acc)
  case Nil
  then show ?case by simp
next
  case (Cons f fs)
  show ?case
  proof (cases "round_task str_int R st target f")
    case None
    with Cons.prems(1) have "build_tasks_loop_any str_int R st target max_tasks fs acc = Inr tasks"
      by (simp add: build_tasks_loop_any_round)
    from Cons.IH [OF this Cons.prems(2)] None show ?thesis by simp
  next
    case (Some r)
    show ?thesis
    proof (cases r)
      case (Inl e)
      with Some Cons.prems(1) show ?thesis by (simp add: build_tasks_loop_any_round)
    next
      case (Inr t)
      have pl: "planned_tasks str_int R st target (f # fs) = t # planned_tasks str_int R st target fs"
        using Some Inr by simp
      show ?thesis
      proof (cases "max_tasks \<le> int (length (acc @ [t]))")
        case True
        with Some Inr Cons.prems(1) have t: "tasks = acc @ [t]"
          by (simp add: build_tasks_loop_any_round)
        from True Cons.prems(2) have "nat (max max_tasks 1) - length acc = 1"
          by auto
        with t pl show ?thesis by simp
      next
        case False
        with Some Inr Cons.prems(1)
        have r: "build_tasks_loop_any str_int R st target max_tasks fs (acc @ [t]) = Inr tasks"
          by (simp add: build_tasks_loop_any_round)
        from False have l: "int (length (acc @ [t])) < max max_tasks 1" by simp
        from False have "nat (max max_tasks 1) - length acc =
            Suc (nat (max max_tasks 1) - length (acc @ [t]))"
          by auto
        with Cons.IH [OF r l] pl show ?thesis by simp
      qed
    qed
  qed
qed

lemma build_tasks_any_planned:
  "build_replication_tasks_for_peer_any str_int R st target max_tasks = Inr tasks \<Longrightarrow>
   tasks = take (nat (max max_tasks 1)) (planned_tasks str_int R st target (list_files st))"
  using build_tasks_loop_any_planned [of str_int R st target max_tasks "list_files st" "[]" tasks]
  by (simp add: build_replication_tasks_for_peer_any_def)

text \<open>The loop returns unless \<^verbatim>\<open>int(port)\<close> raises in one of its rounds.\<close>

lemma build_tasks_loop_any_returns:
  "\<forall>f \<in> set fs. \<forall>e. round_task str_int R st target f \<noteq> Some (Inl e) \<Longrightarrow>
   \<exists>tasks. build_tasks_loop_any str_int R st target max_tasks fs acc = Inr tasks"
proof (induction fs arbitrary: acc)
  case Nil
  show ?case by simp
next
  case (Cons f fs)
  then show ?case
    by (cases "round_task str_int R st target f")
       (auto simp: build_tasks_loop_any_round split: sum.splits)
qed

text \<open>
  The record of the target itself is never read: a file the target serves is passed
  over, and the source of any other file is another peer.
\<close>

lemma get_peers_any_add_peer_length:
  "length (get_peers_for_file_any (add_peer_any st t r) f) = length (get_peers_for_file_any st f)"
  by (simp add: get_peers_for_file_any_def add_peer_any_def)

lemma get_peers_any_add_peer_ids:
  "list_ex (\<lambda>p. key_eq (e_peer_id p) t) (get_peers_for_file_any (add_peer_any st t r) f) =
   list_ex (\<lambda>p. key_eq (e_peer_id p) t) (get_peers_for_file_any st f)"
  by (simp add: get_peers_for_file_any_def add_peer_any_def list_ex_iff)

lemma get_peers_any_add_peer_other:
  "\<not> list_ex (\<lambda>p. key_eq (e_peer_id p) t) (get_peers_for_file_any st f) \<Longrightarrow>
   get_peers_for_file_any (add_peer_any st t r) f = get_peers_for_file_any st f"
  by (auto simp: get_peers_for_file_any_def add_peer_any_def list_ex_iff dict_get_any_set
      dest: key_eq_sym split: option.splits)

lemma round_task_add_peer:
  "round_task str_int R (add_peer_any st t r) t f = round_task str_int R st t f"
proof (cases "list_ex (\<lambda>p. key_eq (e_peer_id p) t) (get_peers_for_file_any st f)")
  case True
  then show ?thesis
    by (simp add: round_task_def get_peers_any_add_peer_length get_peers_any_add_peer_ids)
next
  case False
  then show ?thesis
    by (simp add: round_task_def get_peers_any_add_peer_other)
qed

lemma build_tasks_loop_any_add_peer:
  "build_tasks_loop_any str_int R (add_peer_any st t r) t max_tasks fs acc =
   build_tasks_loop_any str_int R st t max_tasks fs acc"
  by (induction fs arbitrary: acc)
     (simp_all add: build_tasks_loop_any_round round_task_add_peer split: option.splits sum.splits)

lemma build_tasks_any_add_peer:
  "build_replication_tasks_for_peer_any str_int R (add_peer_any st t r) t max_tasks =
   build_replication_tasks_for_peer_any str_int R st t max_tasks"
  by (simp add: build_replication_tasks_for_peer_any_def build_tasks_loop_any_add_peer)
     (simp add: list_files_def add_peer_any_def)

lemma get_peers_any_servings:
  "get_peers_for_file_any st f =
     map (\<lambda>p. \<lparr>e_peer_id = peer_id p,
               peer = (case dict_get_any (peer_registry st) (peer_id p) of
                         None \<Rightarrow> [] | Some reg \<Rightarrow> reg),
               e_meta = meta p\<rparr>) (servings_any st f)"
  by (simp add: get_peers_for_file_any_def servings_any_def)

text \<open>
  The files for which a round appends a task, in terms of the index: the file has
  servings, fewer than \<open>R\<close>, none of them by \<open>target\<close>, and its first serving peer is
  registered with a host (\<open>host\<close>, else \<open>ip\<close>) and a port that Python takes for true
  and \<^verbatim>\<open>int()\<close> accepts; the task names the file and that peer.
\<close>

lemma round_task_appends_iff:
  "round_task str_int R st target f = Some (Inr t) \<longleftrightarrow>
     (\<exists>s others reg n.
        servings_any st f = s # others \<and>
        int (length (s # others)) < R \<and>
        \<not> has_serving_any st target f \<and>
        dict_get_any (peer_registry st) (peer_id s) = Some reg \<and>
        truthy (py_or (dget reg ''host'') (dget reg ''ip'')) \<and>
        truthy (dget reg ''port'') \<and>
        py_int str_int (dget reg ''port'') = Inr n \<and>
        t = \<lparr>file_name = f,
             source = \<lparr>src_peer_id = peer_id s,
                        host = py_or (dget reg ''host'') (dget reg ''ip''), port = n\<rparr>\<rparr>)"
proof (cases "servings_any st f")
  case Nil
  then show ?thesis
    by (simp add: round_task_def get_peers_any_servings)
next
  case (Cons s others)
  show ?thesis
  proof (cases "dict_get_any (peer_registry st) (peer_id s)")
    case None
    with Cons show ?thesis
      by (simp add: round_task_def get_peers_any_servings has_serving_any_def list_ex_iff
          dget_def py_or_def)
  next
    case (Some reg)
    with Cons show ?thesis
      by (auto simp: round_task_def get_peers_any_servings has_serving_any_def list_ex_iff
          Let_def split: sum.splits)
  qed
qed

section \<open>The registry handler: a request with no files\<close>

lemma register_files_empty:
  "files = JObj [] \<or> files = JList [] \<Longrightarrow> register_files st pid files = (Inr 0, st)"
  by (auto simp: register_files_def)

lemma payload_of_create_message: "payload_of (create_message now t p pid) = p"
  by (simp add: payload_of_def create_message_def dget_def)

lemma planned_tasks_no_files: "planned_tasks str_int R st target [] = []"
  by simp

text \<open>
  Claim C8, as the code has it. Take a REGISTRY_REQUEST whose \<open>peer_id\<close> is a value
  that Python takes for true and can hash, whose payload is an object in which
  \<open>peer\<close> is an object or absent, and whose \<open>files\<close> collection is empty (\<open>{}\<close> or
  \<open>[]\<close>, or absent, which the handler reads as \<open>{}\<close>). The handler stores
  the peer's record and leaves the file index as it was. Whenever it answers, the
  response has status \<open>ok\<close> and \<open>registered_files = 0\<close>, and its replication tasks
  are one task for each of the first five files of \<^verbatim>\<open>list_files()\<close> that have fewer
  servings than the replication factor, none of them by this peer, and a first
  serving peer whose registry record has a usable host and port; the key
  \<open>replication_tasks\<close> is absent when there is no such file, as on an empty file
  index. It answers unless \<^verbatim>\<open>int(port)\<close> raises on the record of such a source.
\<close>

theorem register_peer_empty_files:
  assumes "dget_default message ''payload'' (JObj []) = JObj payload"
    and "truthy (dget message ''peer_id'')"
    and "key_of (dget message ''peer_id'') = Some pid"
    and "dget_default payload ''peer'' (JObj []) = JObj pinfo"
    and "dget_default payload ''files'' (JObj []) = JObj [] \<or>
         dget_default payload ''files'' (JObj []) = JList []"
  shows "snd (register_peer str_int now R st message client_addr) =
      add_peer_any st pid (make_peer_record str_int pinfo client_addr) \<and>
    file_index (snd (register_peer str_int now R st message client_addr)) = file_index st \<and>
    (fst (register_peer str_int now R st message client_addr) = Inr resp \<longrightarrow>
       resp = create_message now REGISTRY_RESPONSE
                (resp_payload 0 (take 5 (planned_tasks str_int R st pid (list_files st))))
                (dget message ''peer_id'') \<and>
       dget (payload_of resp) ''status'' = JStr ''ok'' \<and>
       dget (payload_of resp) ''registered_files'' = JInt 0 \<and>
       dget (payload_of resp) ''replication_tasks'' =
         (if planned_tasks str_int R st pid (list_files st) = [] then JNull
          else JList (map task_json (take 5 (planned_tasks str_int R st pid (list_files st)))))) \<and>
    ((\<forall>f \<in> set (list_files st). \<forall>e. round_task str_int R st pid f \<noteq> Some (Inl e)) \<longrightarrow>
       (\<exists>r. fst (register_peer str_int now R st message client_addr) = Inr r)) \<and>
    (list_files st = [] \<longrightarrow>
       fst (register_peer str_int now R st message client_addr) =
         Inr (create_message now REGISTRY_RESPONSE
               [(''status'', JStr ''ok''), (''registered_files'', JInt 0),
                (''replication_required'', JBool False)] (dget message ''peer_id'')))"
proof -
  let ?rec = "make_peer_record str_int pinfo client_addr"
  let ?plan = "planned_tasks str_int R st pid (list_files st)"
  have rf: "register_files (add_peer_any st pid ?rec) pid (dget_default payload ''files'' (JObj [])) =
      (Inr 0, add_peer_any st pid ?rec)"
    by (rule register_files_empty) (rule assms(5))
  have kj: "key_json pid = dget message ''peer_id''"
    by (rule key_json_of) (rule assms(3))
  have main: "register_peer str_int now R st message client_addr =
      (case build_replication_tasks_for_peer_any str_int R st pid 5 of
         Inl e \<Rightarrow> Inl e
       | Inr tasks \<Rightarrow>
           Inr (create_message now REGISTRY_RESPONSE (resp_payload 0 tasks) (dget message ''peer_id'')),
       add_peer_any st pid ?rec)"
    using assms(1,2,3,4)
    by (simp add: register_peer_def Let_def register_known_peer_def rf build_tasks_any_add_peer kj
        split: sum.splits)
  have fi: "file_index (add_peer_any st pid ?rec) = file_index st"
    by (simp add: add_peer_any_def)
  have resp: "resp = create_message now REGISTRY_RESPONSE (resp_payload 0 (take 5 ?plan))
        (dget message ''peer_id'')"
    if "fst (register_peer str_int now R st message client_addr) = Inr resp"
  proof -
    from that main obtain tasks where
      b: "build_replication_tasks_for_peer_any str_int R st pid 5 = Inr tasks" and
      r: "resp = create_message now REGISTRY_RESPONSE (resp_payload 0 tasks) (dget message ''peer_id'')"
      by (auto split: sum.splits)
    from build_tasks_any_planned [OF b] have "tasks = take 5 ?plan" by simp
    with r show ?thesis by simp
  qed
  have fields: "dget (resp_payload 0 (take 5 ?plan)) ''status'' = JStr ''ok'' \<and>
       dget (resp_payload 0 (take 5 ?plan)) ''registered_files'' = JInt 0 \<and>
       dget (resp_payload 0 (take 5 ?plan)) ''replication_tasks'' =
         (if ?plan = [] then JNull else JList (map task_json (take 5 ?plan)))"
    by (simp add: resp_payload_def dget_def)
  have returns: "\<exists>r. fst (register_peer str_int now R st message client_addr) = Inr r"
    if "\<forall>f \<in> set (list_files st). \<forall>e. round_task str_int R st pid f \<noteq> Some (Inl e)"
  proof -
    from build_tasks_loop_any_returns [OF that, of 5 "[]"] obtain tasks where
      "build_replication_tasks_for_peer_any str_int R st pid 5 = Inr tasks"
      by (auto simp: build_replication_tasks_for_peer_any_def)
    with main show ?thesis by simp
  qed
  have empty: "fst (register_peer str_int now R st message client_addr) =
         Inr (create_message now REGISTRY_RESPONSE
               [(''status'', JStr ''ok''), (''registered_files'', JInt 0),
                (''replication_required'', JBool False)] (dget message ''peer_id''))"
    if "list_files st = []"
    using that main
    by (simp add: build_replication_tasks_for_peer_any_def resp_payload_def)
  have F1: "snd (register_peer str_int now R st message client_addr) =
      add_peer_any st pid ?rec"
    by (simp add: main)
  have F2: "file_index (snd (register_peer str_int now R st message client_addr)) = file_index st"
    by (simp add: F1 fi)
  have F3: "resp = create_message now REGISTRY_RESPONSE (resp_payload 0 (take 5 ?plan))
                (dget message ''peer_id'') \<and>
       dget (payload_of resp) ''status'' = JStr ''ok'' \<and>
       dget (payload_of resp) ''registered_files'' = JInt 0 \<and>
       dget (payload_of resp) ''replication_tasks'' =
         (if ?plan = [] then JNull else JList (map task_json (take 5 ?plan)))"
    if r: "fst (register_peer str_int now R st message client_addr) = Inr resp"
    using resp [OF r] fields by (simp add: payload_of_create_message)
  from F1 F2 F3 returns empty show ?thesis by blast
qed

text \<open>The definitions a concrete registration or search is evaluated with.\<close>

lemmas run_defs = msg_defs reg_defs any_defs build_tasks_loop_any.simps(2)

text \<open>
  The claim as stated fails: the tasks depend on the files of the other peers, not on
  the files of the request. With replication factor 2, after \<open>peer1\<close> has registered
  \<open>f.bin\<close>, the registration of \<open>peer2\<close> with no files is answered with one task.
\<close>

theorem register_peer_empty_files_gets_task:
  "fst (register_peer (\<lambda>s. None) 2000 2
     (snd (register_peer (\<lambda>s. None) 1000 2 \<lparr>file_index = [], peer_registry = []\<rparr>
        [(''type'', JStr ''REGISTRY_REQUEST''), (''peer_id'', JStr ''peer1''),
         (''payload'', JObj [(''files'', JObj [(''f.bin'', JObj [])]),
            (''peer'', JObj [(''peer_id'', JStr ''peer1''), (''host'', JStr ''127.0.0.1''),
                             (''port'', JInt 7100)])])]
        (''127.0.0.1'', 50001)))
     [(''type'', JStr ''REGISTRY_REQUEST''), (''peer_id'', JStr ''peer2''),
      (''payload'', JObj [(''files'', JObj []),
         (''peer'', JObj [(''peer_id'', JStr ''peer2''), (''host'', JStr ''127.0.0.1''),
                          (''port'', JInt 7101)])])]
     (''127.0.0.1'', 50002)) =
   Inr [(''type'', JStr ''REGISTRY_RESPONSE''), (''timestamp'', JInt 2000),
        (''version'', JStr ''1.0''), (''peer_id'', JStr ''peer2''), (''request_id'', JNull),
        (''payload'', JObj [(''status'', JStr ''ok''), (''registered_files'', JInt 0),
           (''replication_tasks'', JList [JObj [(''file_name'', JStr ''f.bin''),
               (''source'', JObj [(''peer_id'', JStr ''peer1''), (''host'', JStr ''127.0.0.1''),
                                  (''port'', JInt 7100)])]]),
           (''replication_required'', JBool True)])]"
  by (simp add: run_defs)

theorem register_peer_empty_files_witness:
  "dget_default [(''type'', JStr ''REGISTRY_REQUEST''), (''peer_id'', JStr ''peer2''),
      (''payload'', JObj [(''files'', JList []),
         (''peer'', JObj [(''host'', JStr ''127.0.0.1''), (''port'', JInt 7101)])])]
      ''payload'' (JObj []) =
     JObj [(''files'', JList []),
           (''peer'', JObj [(''host'', JStr ''127.0.0.1''), (''port'', JInt 7101)])] \<and>
   truthy (dget [(''type'', JStr ''REGISTRY_REQUEST''), (''peer_id'', JStr ''peer2''),
      (''payload'', JObj [(''files'', JList []),
         (''peer'', JObj [(''host'', JStr ''127.0.0.1''), (''port'', JInt 7101)])])]
      ''peer_id'') \<and>
   key_of (dget [(''type'', JStr ''REGISTRY_REQUEST''), (''peer_id'', JStr ''peer2''),
      (''payload'', JObj [(''files'', JList []),
         (''peer'', JObj [(''host'', JStr ''127.0.0.1''), (''port'', JInt 7101)])])]
      ''peer_id'') = Some (KStr ''peer2'') \<and>
   dget_default [(''files'', JList []),
         (''peer'', JObj [(''host'', JStr ''127.0.0.1''), (''port'', JInt 7101)])]
      ''peer'' (JObj []) = JObj [(''host'', JStr ''127.0.0.1''), (''port'', JInt 7101)] \<and>
   dget_default [(''files'', JList []),
         (''peer'', JObj [(''host'', JStr ''127.0.0.1''), (''port'', JInt 7101)])]
      ''files'' (JObj []) = JList [] \<and>
   planned_tasks (\<lambda>s. None) 2
     \<lparr>file_index = [(KStr ''f.bin'', [\<lparr>peer_id = KStr ''peer1'', meta = []\<rparr>]),
                    (KStr ''g.bin'', [\<lparr>peer_id = KStr ''peer1'', meta = []\<rparr>,
                                     \<lparr>peer_id = KStr ''peer3'', meta = []\<rparr>]),
                    (KStr ''h.bin'', [\<lparr>peer_id = KStr ''peer2'', meta = []\<rparr>])],
      peer_registry = [(KStr ''peer1'', [(''peer_id'', JStr ''peer1''),
                          (''host'', JStr ''127.0.0.1''), (''port'', JInt 7100)])]\<rparr>
     (KStr ''peer2'') [KStr ''f.bin'', KStr ''g.bin'', KStr ''h.bin''] =
     [\<lparr>file_name = KStr ''f.bin'',
       source = \<lparr>src_peer_id = KStr ''peer1'', host = JStr ''127.0.0.1'', port = 7100\<rparr>\<rparr>] \<and>
   fst (register_peer (\<lambda>s. None) 2000 2
     \<lparr>file_index = [(KStr ''f.bin'', [\<lparr>peer_id = KStr ''peer1'', meta = []\<rparr>]),
                    (KStr ''g.bin'', [\<lparr>peer_id = KStr ''peer1'', meta = []\<rparr>,
                                     \<lparr>peer_id = KStr ''peer3'', meta = []\<rparr>]),
                    (KStr ''h.bin'', [\<lparr>peer_id = KStr ''peer2'', meta = []\<rparr>])],
      peer_registry = [(KStr ''peer1'', [(''peer_id'', JStr ''peer1''),
                          (''host'', JStr ''127.0.0.1''), (''port'', JInt 7100)])]\<rparr>
     [(''type'', JStr ''REGISTRY_REQUEST''), (''peer_id'', JStr ''peer2''),
      (''payload'', JObj [(''files'', JList []),
         (''peer'', JObj [(''host'', JStr ''127.0.0.1''), (''port'', JInt 7101)])])]
     (''127.0.0.1'', 50002)) =
   Inr [(''type'', JStr ''REGISTRY_RESPONSE''), (''timestamp'', JInt 2000),
        (''version'', JStr ''1.0''), (''peer_id'', JStr ''peer2''), (''request_id'', JNull),
        (''payload'', JObj [(''status'', JStr ''ok''), (''registered_files'', JInt 0),
           (''replication_tasks'', JList [JObj [(''file_name'', JStr ''f.bin''),
               (''source'', JObj [(''peer_id'', JStr ''peer1''), (''host'', JStr ''127.0.0.1''),
                                  (''port'', JInt 7100)])]]),
           (''replication_required'', JBool True)])]"
proof -
  let ?p = "[(''files'', JList []),
         (''peer'', JObj [(''host'', JStr ''127.0.0.1''), (''port'', JInt 7101)])]"
  let ?m = "[(''type'', JStr ''REGISTRY_REQUEST''), (''peer_id'', JStr ''peer2''),
      (''payload'', JObj ?p)]"
  let ?st = "\<lparr>file_index = [(KStr ''f.bin'', [\<lparr>peer_id = KStr ''peer1'', meta = []\<rparr>]),
                    (KStr ''g.bin'', [\<lparr>peer_id = KStr ''peer1'', meta = []\<rparr>,
                                     \<lparr>peer_id = KStr ''peer3'', meta = []\<rparr>]),
                    (KStr ''h.bin'', [\<lparr>peer_id = KStr ''peer2'', meta = []\<rparr>])],
      peer_registry = [(KStr ''peer1'', [(''peer_id'', JStr ''peer1''),
                          (''host'', JStr ''127.0.0.1''), (''port'', JInt 7100)])]\<rparr>"
  have a: "dget_default ?m ''payload'' (JObj []) = JObj ?p"
    by (simp add: dget_default_def)
  have b: "truthy (dget ?m ''peer_id'')"
    by (simp add: dget_def)
  have c: "key_of (dget ?m ''peer_id'') = Some (KStr ''peer2'')"
    by (simp add: dget_def)
  have d: "dget_default ?p ''peer'' (JObj []) = JObj [(''host'', JStr ''127.0.0.1''), (''port'', JInt 7101)]"
    by (simp add: dget_default_def)
  have e: "dget_default ?p ''files'' (JObj []) = JObj [] \<or> dget_default ?p ''files'' (JObj []) = JList []"
    by (simp add: dget_default_def)
  have e': "dget_default ?p ''files'' (JObj []) = JList []"
    by (simp add: dget_default_def)
  have l: "list_files ?st = [KStr ''f.bin'', KStr ''g.bin'', KStr ''h.bin'']"
    by (simp add: list_files_def)
  have rt: "round_task (\<lambda>s. None) 2 ?st (KStr ''peer2'') (KStr ''f.bin'') =
        Some (Inr \<lparr>file_name = KStr ''f.bin'',
          source = \<lparr>src_peer_id = KStr ''peer1'', host = JStr ''127.0.0.1'', port = 7100\<rparr>\<rparr>)"
      "round_task (\<lambda>s. None) 2 ?st (KStr ''peer2'') (KStr ''g.bin'') = None"
      "round_task (\<lambda>s. None) 2 ?st (KStr ''peer2'') (KStr ''h.bin'') = None"
    by (simp_all add: any_defs dget_def py_or_def)
  have pl: "planned_tasks (\<lambda>s. None) 2 ?st (KStr ''peer2'')
       [KStr ''f.bin'', KStr ''g.bin'', KStr ''h.bin''] =
     [\<lparr>file_name = KStr ''f.bin'',
       source = \<lparr>src_peer_id = KStr ''peer1'', host = JStr ''127.0.0.1'', port = 7100\<rparr>\<rparr>]"
    by (simp add: rt)
  have noraise: "\<forall>f \<in> set (list_files ?st). \<forall>e.
      round_task (\<lambda>s. None) 2 ?st (KStr ''peer2'') f \<noteq> Some (Inl e)"
    unfolding l using rt by simp
  have dm: "dget ?m ''peer_id'' = JStr ''peer2''"
    by (simp add: dget_def)
  from register_peer_empty_files [OF a b c d e, of "\<lambda>s. None" 2000 2 ?st "(''127.0.0.1'', 50002)"]
    noraise
  obtain r where r: "fst (register_peer (\<lambda>s. None) 2000 2 ?st ?m (''127.0.0.1'', 50002)) = Inr r"
    by blast
  from register_peer_empty_files [OF a b c d e, of "\<lambda>s. None" 2000 2 ?st "(''127.0.0.1'', 50002)" r] r
  have "r = create_message 2000 REGISTRY_RESPONSE
      (resp_payload 0 (take 5 (planned_tasks (\<lambda>s. None) 2 ?st (KStr ''peer2'') (list_files ?st))))
      (dget ?m ''peer_id'')"
    by blast
  with r l pl dm a b c d e' show ?thesis
    by (simp add: create_message_def REGISTRY_RESPONSE_def resp_payload_def task_json_def)
qed

section \<open>The registry handler: which entries are counted\<close>

lemma dget_default_set:
  "dget_default (dict_set d k v) k' dflt = (if k' = k then v else dget_default d k' dflt)"
  using dict_get_set [of d k v k'] by (simp add: dget_default_def dict_get_def)

lemma dget_set: "dget (dict_set d k v) k' = (if k' = k then v else dget d k')"
  using dict_get_set [of d k v k'] by (simp add: dget_def dict_get_def)

lemma register_list_skips:
  "register_list st pid items n = register_list st pid (filter names_a_file items) n"
proof (induction items arbitrary: st n)
  case Nil
  show ?case by simp
next
  case (Cons item items)
  show ?case
  proof (cases "names_a_file item")
    case True
    then obtain d where d: "item = JObj d" by (cases item) (simp_all add: names_a_file_def)
    show ?thesis
      using True by (simp add: d Let_def Cons.IH split: option.splits)
  next
    case False
    then have "register_list st pid (item # items) n = register_list st pid items n"
      by (cases item) (auto simp: names_a_file_def dict_get_def dget_def py_or_def Let_def)
    with False show ?thesis by (simp add: Cons.IH)
  qed
qed

lemma register_mapping_count: "snd (register_mapping st pid d n) = n + int (length d)"
  by (induction d arbitrary: st n) simp_all

lemma add_file_any_noop: "has_serving_any st p f \<Longrightarrow> add_file_any st p f m = st"
  by (auto simp: has_serving_any_def servings_any_def add_file_any_def split: option.splits)

lemma has_serving_any_add_peer: "has_serving_any (add_peer_any st p r) q f = has_serving_any st q f"
  by (simp add: has_serving_any_def servings_any_def add_peer_any_def)

lemma add_peer_any_file_index: "file_index (add_peer_any st p r) = file_index st"
  by (simp add: add_peer_any_def)

lemma register_known_peer_duplicate:
  "has_serving_any st pid (KStr f) \<Longrightarrow>
   file_index (snd (register_known_peer str_int now R st pid rec (JObj [(f, m)]))) = file_index st"
  by (auto simp: register_known_peer_def register_files_def add_file_any_noop
      has_serving_any_add_peer add_peer_any_file_index split: sum.splits)

text \<open>
  Claim C10. When \<open>payload.files\<close> is a list, the elements that are not objects or
  have neither a \<open>name\<close> nor a \<open>file_name\<close> key are skipped: the handler returns the
  same response, or raises the same exception, and leaves the same index as for the
  request without them. When it is a mapping and the peer id is one that Python
  takes for true, a response counts every entry in \<open>registered_files\<close>; an entry
  whose file the peer already serves is counted too, and adds nothing to the file
  index, so the count can exceed the servings added.
\<close>

theorem register_peer_counts_entries:
  assumes "dget_default message ''payload'' (JObj []) = JObj payload"
  shows
   "(dget_default payload ''files'' (JObj []) = JList items \<longrightarrow>
       register_peer str_int now R st message client_addr =
       register_peer str_int now R st
         (dict_set message ''payload''
            (JObj (dict_set payload ''files'' (JList (filter names_a_file items)))))
         client_addr) \<and>
    (dget_default payload ''files'' (JObj []) = JObj d \<longrightarrow>
     truthy (dget message ''peer_id'') \<longrightarrow>
     fst (register_peer str_int now R st message client_addr) = Inr resp \<longrightarrow>
       dget (payload_of resp) ''status'' = JStr ''ok'' \<and>
       dget (payload_of resp) ''registered_files'' = JInt (int (length d))) \<and>
    (dget_default payload ''files'' (JObj []) = JObj [(f, m)] \<longrightarrow>
     key_of (dget message ''peer_id'') = Some pid \<longrightarrow>
     has_serving_any st pid (KStr f) \<longrightarrow>
       file_index (snd (register_peer str_int now R st message client_addr)) = file_index st)"
proof -
  have skips: "register_peer str_int now R st message client_addr =
       register_peer str_int now R st
         (dict_set message ''payload''
            (JObj (dict_set payload ''files'' (JList (filter names_a_file items)))))
         client_addr"
    if fl: "dget_default payload ''files'' (JObj []) = JList items"
  proof -
    let ?payload' = "dict_set payload ''files'' (JList (filter names_a_file items))"
    let ?message' = "dict_set message ''payload'' (JObj ?payload')"
    have rf: "register_files st' k (JList items) =
        register_files st' k (JList (filter names_a_file items))" for st' k
      by (simp add: register_files_def register_list_skips [of st' k items 0])
    have rk: "register_known_peer str_int now R st k rec (JList items) =
        register_known_peer str_int now R st k rec (JList (filter names_a_file items))" for rec k
      by (simp add: register_known_peer_def rf)
    have p': "dget_default ?message' ''payload'' (JObj []) = JObj ?payload'"
      by (simp add: dget_default_set)
    have id': "dget ?message' ''peer_id'' = dget message ''peer_id''"
      by (simp add: dget_set)
    have f': "dget_default ?payload' ''files'' (JObj []) = JList (filter names_a_file items)"
      by (simp add: dget_default_set)
    have pe': "dget_default ?payload' ''peer'' (JObj []) = dget_default payload ''peer'' (JObj [])"
      by (simp add: dget_default_set)
    show ?thesis
      by (simp add: register_peer_def Let_def p' id' f' pe' assms fl rk
          split: json.splits option.splits)
  qed
  have counts: "dget (payload_of resp) ''status'' = JStr ''ok'' \<and>
       dget (payload_of resp) ''registered_files'' = JInt (int (length d))"
    if fl: "dget_default payload ''files'' (JObj []) = JObj d"
      and t: "truthy (dget message ''peer_id'')"
      and r: "fst (register_peer str_int now R st message client_addr) = Inr resp"
  proof -
    from r assms fl t obtain pinfo k where
      "fst (register_known_peer str_int now R st k
              (make_peer_record str_int pinfo client_addr) (JObj d)) = Inr resp"
      by (auto simp: register_peer_def Let_def split: json.splits option.splits)
    then show ?thesis
      by (auto simp: register_known_peer_def register_files_def register_mapping_count
        create_message_def payload_of_def dget_def resp_payload_def split: sum.splits)
  qed
  have dup: "file_index (snd (register_peer str_int now R st message client_addr)) = file_index st"
    if fl: "dget_default payload ''files'' (JObj []) = JObj [(f, m)]"
      and k: "key_of (dget message ''peer_id'') = Some pid"
      and h: "has_serving_any st pid (KStr f)"
    using assms fl k register_known_peer_duplicate [OF h]
    by (simp add: register_peer_def Let_def split: json.splits)
  from skips counts dup show ?thesis by blast
qed

theorem register_peer_counts_entries_witness:
  "dget_default [(''type'', JStr ''REGISTRY_REQUEST''), (''peer_id'', JStr ''peer1''),
       (''payload'', JObj [(''files'', JList [JInt 5, JObj [(''size'', JInt 3)],
           JObj [(''name'', JInt 7)],
           JObj [(''name'', JStr ''b.txt''), (''size'', JInt 7)]])])] ''payload'' (JObj []) =
     JObj [(''files'', JList [JInt 5, JObj [(''size'', JInt 3)], JObj [(''name'', JInt 7)],
           JObj [(''name'', JStr ''b.txt''), (''size'', JInt 7)]])] \<and>
   register_peer (\<lambda>s. None) 1000 2 \<lparr>file_index = [], peer_registry = []\<rparr>
     [(''type'', JStr ''REGISTRY_REQUEST''), (''peer_id'', JStr ''peer1''),
       (''payload'', JObj [(''files'', JList [JInt 5, JObj [(''size'', JInt 3)],
           JObj [(''name'', JInt 7)],
           JObj [(''name'', JStr ''b.txt''), (''size'', JInt 7)]])])]
     (''127.0.0.1'', 7100) =
   (Inr [(''type'', JStr ''REGISTRY_RESPONSE''), (''timestamp'', JInt 1000),
         (''version'', JStr ''1.0''), (''peer_id'', JStr ''peer1''), (''request_id'', JNull),
         (''payload'', JObj [(''status'', JStr ''ok''), (''registered_files'', JInt 2),
            (''replication_required'', JBool False)])],
    \<lparr>file_index = [(KInt 7, [\<lparr>peer_id = KStr ''peer1'', meta = []\<rparr>]),
                   (KStr ''b.txt'', [\<lparr>peer_id = KStr ''peer1'', meta = [(''size'', JInt 7)]\<rparr>])],
     peer_registry = [(KStr ''peer1'', [(''peer_id'', JStr ''peer1''), (''host'', JStr ''127.0.0.1''),
                                        (''port'', JInt 7100)])]\<rparr>) \<and>
   has_serving_any
     \<lparr>file_index = [(KStr ''a.txt'', [\<lparr>peer_id = KStr ''peer1'', meta = []\<rparr>])],
      peer_registry = []\<rparr> (KStr ''peer1'') (KStr ''a.txt'') \<and>
   fst (register_peer (\<lambda>s. None) 1000 1
     \<lparr>file_index = [(KStr ''a.txt'', [\<lparr>peer_id = KStr ''peer1'', meta = []\<rparr>])],
      peer_registry = []\<rparr>
     [(''type'', JStr ''REGISTRY_REQUEST''), (''peer_id'', JStr ''peer1''),
      (''payload'', JObj [(''files'', JObj [(''a.txt'', JObj [(''size'', JInt 9)])])])]
     (''127.0.0.1'', 7100)) =
   Inr [(''type'', JStr ''REGISTRY_RESPONSE''), (''timestamp'', JInt 1000),
         (''version'', JStr ''1.0''), (''peer_id'', JStr ''peer1''), (''request_id'', JNull),
         (''payload'', JObj [(''status'', JStr ''ok''), (''registered_files'', JInt 1),
            (''replication_required'', JBool False)])] \<and>
   file_index (snd (register_peer (\<lambda>s. None) 1000 1
     \<lparr>file_index = [(KStr ''a.txt'', [\<lparr>peer_id = KStr ''peer1'', meta = []\<rparr>])],
      peer_registry = []\<rparr>
     [(''type'', JStr ''REGISTRY_REQUEST''), (''peer_id'', JStr ''peer1''),
      (''payload'', JObj [(''files'', JObj [(''a.txt'', JObj [(''size'', JInt 9)])])])]
     (''127.0.0.1'', 7100))) =
   [(KStr ''a.txt'', [\<lparr>peer_id = KStr ''peer1'', meta = []\<rparr>])]"
proof -
  let ?items = "[JInt 5, JObj [(''size'', JInt 3)], JObj [(''name'', JInt 7)],
      JObj [(''name'', JStr ''b.txt''), (''size'', JInt 7)]]"
  let ?kept = "[JObj [(''name'', JInt 7)], JObj [(''name'', JStr ''b.txt''), (''size'', JInt 7)]]"
  let ?pA = "[(''files'', JList ?items)]"
  let ?mA = "[(''type'', JStr ''REGISTRY_REQUEST''), (''peer_id'', JStr ''peer1''), (''payload'', JObj ?pA)]"
  let ?pB = "[(''files'', JObj [(''a.txt'', JObj [(''size'', JInt 9)])])]"
  let ?mB = "[(''type'', JStr ''REGISTRY_REQUEST''), (''peer_id'', JStr ''peer1''), (''payload'', JObj ?pB)]"
  let ?new = "\<lparr>file_index = [], peer_registry = []\<rparr> :: key_index"
  let ?st = "\<lparr>file_index = [(KStr ''a.txt'', [\<lparr>peer_id = KStr ''peer1'', meta = []\<rparr>])],
      peer_registry = []\<rparr> :: key_index"
  let ?respA = "[(''type'', JStr ''REGISTRY_RESPONSE''), (''timestamp'', JInt 1000),
         (''version'', JStr ''1.0''), (''peer_id'', JStr ''peer1''), (''request_id'', JNull),
         (''payload'', JObj [(''status'', JStr ''ok''), (''registered_files'', JInt 2),
            (''replication_required'', JBool False)])]"
  let ?respB = "[(''type'', JStr ''REGISTRY_RESPONSE''), (''timestamp'', JInt 1000),
         (''version'', JStr ''1.0''), (''peer_id'', JStr ''peer1''), (''request_id'', JNull),
         (''payload'', JObj [(''status'', JStr ''ok''), (''registered_files'', JInt 1),
            (''replication_required'', JBool False)])]"
  have a: "dget_default ?mA ''payload'' (JObj []) = JObj ?pA"
    by (simp add: dget_default_def)
  have fA: "dget_default ?pA ''files'' (JObj []) = JList ?items"
    by (simp add: dget_default_def)
  have keep: "filter names_a_file ?items = ?kept"
    by (simp add: names_a_file_def dict_get_def)
  have evA: "register_peer (\<lambda>s. None) 1000 2 ?new
       (dict_set ?mA ''payload'' (JObj (dict_set ?pA ''files'' (JList ?kept))))
       (''127.0.0.1'', 7100) =
     (Inr ?respA,
      \<lparr>file_index = [(KInt 7, [\<lparr>peer_id = KStr ''peer1'', meta = []\<rparr>]),
                   (KStr ''b.txt'', [\<lparr>peer_id = KStr ''peer1'', meta = [(''size'', JInt 7)]\<rparr>])],
       peer_registry = [(KStr ''peer1'', [(''peer_id'', JStr ''peer1''), (''host'', JStr ''127.0.0.1''),
                                     (''port'', JInt 7100)])]\<rparr>)"
    by (simp add: run_defs)
  have a': "dget_default ?mB ''payload'' (JObj []) = JObj ?pB"
    by (simp add: dget_default_def)
  have b': "truthy (dget ?mB ''peer_id'')" "key_of (dget ?mB ''peer_id'') = Some (KStr ''peer1'')"
    by (simp_all add: dget_def)
  have fB: "dget_default ?pB ''files'' (JObj []) = JObj [(''a.txt'', JObj [(''size'', JInt 9)])]"
    by (simp add: dget_default_def)
  have h: "has_serving_any ?st (KStr ''peer1'') (KStr ''a.txt'')"
    by (simp add: any_defs)
  have evB: "fst (register_peer (\<lambda>s. None) 1000 1 ?st ?mB (''127.0.0.1'', 7100)) = Inr ?respB"
    by (simp add: run_defs)
  from register_peer_counts_entries [OF a, of ?items "\<lambda>s. None" 1000 2 ?new
      "(''127.0.0.1'', 7100)"] fA keep evA
  have A: "register_peer (\<lambda>s. None) 1000 2 ?new ?mA (''127.0.0.1'', 7100) =
     (Inr ?respA,
      \<lparr>file_index = [(KInt 7, [\<lparr>peer_id = KStr ''peer1'', meta = []\<rparr>]),
                   (KStr ''b.txt'', [\<lparr>peer_id = KStr ''peer1'', meta = [(''size'', JInt 7)]\<rparr>])],
       peer_registry = [(KStr ''peer1'', [(''peer_id'', JStr ''peer1''), (''host'', JStr ''127.0.0.1''),
                                     (''port'', JInt 7100)])]\<rparr>)"
    by simp
  from register_peer_counts_entries [OF a', of _ _ _ _ ?st _ "[(''a.txt'', JObj [(''size'', JInt 9)])]"
      ?respB "''a.txt''" "JObj [(''size'', JInt 9)]" "KStr ''peer1''"] fB h evB b'
  have B: "file_index (snd (register_peer (\<lambda>s. None) 1000 1 ?st ?mB (''127.0.0.1'', 7100))) =
       [(KStr ''a.txt'', [\<lparr>peer_id = KStr ''peer1'', meta = []\<rparr>])]"
    by simp
  from a A h B evB show ?thesis by simp
qed

section \<open>The two readings of the index agree on string keys\<close>

text \<open>
  \<open>str_index\<close> reads an index with string keys as one with the keys the handlers
  pass. The methods the handlers call commute with it, so what is proved of
  \<^verbatim>\<open>FileIndex\<close> at its declared types holds of the index the handlers work on, as
  long as the ids and names are strings.
\<close>

lemma dict_get_any_str:
  "dict_get_any (map (\<lambda>e. (KStr (fst e), g (snd e))) d) (KStr k) = map_option g (dict_get d k)"
  by (induction d) (auto simp: dict_get_def key_eq_def)

lemma dict_set_any_str:
  "dict_set_any (map (\<lambda>e. (KStr (fst e), g (snd e))) d) (KStr k) (g v) =
   map (\<lambda>e. (KStr (fst e), g (snd e))) (dict_set d k v)"
  by (induction d) (auto simp: key_eq_def)

lemma add_peer_any_str: "add_peer_any (str_index st) (KStr p) r = str_index (add_peer st p r)"
  using dict_set_any_str [of "\<lambda>x. x" "peer_registry st" p]
  by (simp add: add_peer_any_def add_peer_def str_index_def)

lemma list_ex_str_serving:
  "list_ex (\<lambda>s. key_eq (peer_id s) (KStr p)) (map str_serving ps) = list_ex (\<lambda>s. peer_id s = p) ps"
  by (simp add: list_ex_iff str_serving_def key_eq_def)

lemma str_serving_entry:
  "ps' @ [\<lparr>peer_id = KStr p, meta = M\<rparr>] = map str_serving (ps @ [\<lparr>peer_id = p, meta = M\<rparr>])"
  if "ps' = map str_serving ps"
  using that by (simp add: str_serving_def)

lemma add_file_any_str:
  "add_file_any (str_index st) (KStr p) (KStr f) m = str_index (add_file st p f m)"
proof -
  let ?g = "map str_serving"
  let ?M = "case m of None \<Rightarrow> [] | Some d \<Rightarrow> d"
  let ?fi = "map (\<lambda>e. (KStr (fst e), ?g (snd e))) (file_index st)"
  have get: "dict_get_any ?fi (KStr f) = map_option ?g (dict_get (file_index st) f)"
    by (rule dict_get_any_str)
  show ?thesis
  proof (cases "dict_get (file_index st) f")
    case None
    have e: "[\<lparr>peer_id = KStr p, meta = ?M\<rparr>] = ?g ([] @ [\<lparr>peer_id = p, meta = ?M\<rparr>])"
      using str_serving_entry [of "[]" "[]" p ?M] by simp
    have s0: "dict_set_any ?fi (KStr f) [] =
        map (\<lambda>e. (KStr (fst e), ?g (snd e))) (dict_set (file_index st) f [])"
      using dict_set_any_str [of ?g "file_index st" f "[]"] by simp
    have "file_index (add_file_any (str_index st) (KStr p) (KStr f) m) =
        dict_set_any (dict_set_any ?fi (KStr f) []) (KStr f) [\<lparr>peer_id = KStr p, meta = ?M\<rparr>]"
      using None by (simp add: add_file_any_def str_index_def get Let_def)
    also have "\<dots> = map (\<lambda>e. (KStr (fst e), ?g (snd e)))
        (dict_set (dict_set (file_index st) f []) f ([] @ [\<lparr>peer_id = p, meta = ?M\<rparr>]))"
      unfolding s0 e by (rule dict_set_any_str)
    also have "\<dots> = file_index (str_index (add_file st p f m))"
      using None by (simp add: add_file_def str_index_def Let_def)
    finally show ?thesis
      by (simp add: add_file_any_def add_file_def str_index_def Let_def)
  next
    case (Some ps)
    show ?thesis
    proof (cases "list_ex (\<lambda>s. peer_id s = p) ps")
      case True
      with Some show ?thesis
        by (simp add: add_file_any_def add_file_def str_index_def get Let_def list_ex_str_serving)
    next
      case False
      have e: "?g ps @ [\<lparr>peer_id = KStr p, meta = ?M\<rparr>] = ?g (ps @ [\<lparr>peer_id = p, meta = ?M\<rparr>])"
        by (rule str_serving_entry) simp
      have "file_index (add_file_any (str_index st) (KStr p) (KStr f) m) =
          dict_set_any ?fi (KStr f) (?g ps @ [\<lparr>peer_id = KStr p, meta = ?M\<rparr>])"
        using Some False
        by (simp add: add_file_any_def str_index_def get Let_def list_ex_str_serving)
      also have "\<dots> = map (\<lambda>e. (KStr (fst e), ?g (snd e)))
          (dict_set (file_index st) f (ps @ [\<lparr>peer_id = p, meta = ?M\<rparr>]))"
        unfolding e by (rule dict_set_any_str)
      also have "\<dots> = file_index (str_index (add_file st p f m))"
        using Some False by (simp add: add_file_def str_index_def Let_def)
      finally show ?thesis
        by (simp add: add_file_any_def add_file_def str_index_def Let_def)
    qed
  qed
qed

lemma get_peers_for_file_any_str:
  "get_peers_for_file_any (str_index st) (KStr f) = map str_enriched (get_peers_for_file st f)"
  by (cases "dict_get (file_index st) f")
     (simp_all add: get_peers_for_file_any_def get_peers_for_file_def str_index_def
        dict_get_any_str [where g = "\<lambda>x. x", simplified] dict_get_any_str str_enriched_def
        str_serving_def option.map_id0 split: option.splits)

lemma list_ex_str_enriched:
  "list_ex (\<lambda>e. key_eq (e_peer_id e) (KStr t)) (map str_enriched es) =
   list_ex (\<lambda>e. e_peer_id e = t) es"
  by (simp add: list_ex_iff str_enriched_def key_eq_def)

lemma build_tasks_loop_any_str:
  "build_tasks_loop_any str_int R (str_index st) (KStr t) max_tasks (map KStr fs) (map str_task acc) =
   (case build_tasks_loop str_int R st t max_tasks fs acc of
      Inl e \<Rightarrow> Inl e
    | Inr tasks \<Rightarrow> Inr (map str_task tasks))"
proof (induction fs arbitrary: acc)
  case Nil
  show ?case by simp
next
  case (Cons f fs)
  show ?case
  proof (cases "R \<le> int (length (get_peers_for_file st f)) \<or>
       list_ex (\<lambda>p. e_peer_id p = t) (get_peers_for_file st f)")
    case True
    then show ?thesis
      using Cons.IH [of acc]
      by (auto simp: build_tasks_loop_any.simps(2) get_peers_for_file_any_str list_ex_str_enriched key_eq_KStr)
  next
    case False
    show ?thesis
    proof (cases "get_peers_for_file st f")
      case Nil
      with False show ?thesis
        using Cons.IH [of acc]
        by (simp add: build_tasks_loop_any.simps(2) get_peers_for_file_any_str)
    next
      case first: (Cons src others)
      let ?h = "py_or (dget (peer src) ''host'') (dget (peer src) ''ip'')"
      let ?p = "dget (peer src) ''port''"
      have ps: "peer (str_enriched src) = peer src" "e_peer_id (str_enriched src) = KStr (e_peer_id src)"
        by (simp_all add: str_enriched_def)
      show ?thesis
      proof (cases "truthy ?h \<and> truthy ?p")
        case no: False
        with False first show ?thesis
          using Cons.IH [of acc]
          by (auto simp: build_tasks_loop_any.simps(2) get_peers_for_file_any_str
              list_ex_str_enriched key_eq_KStr ps Let_def)
      next
        case True
        show ?thesis
        proof (cases "py_int str_int ?p")
          case (Inl e)
          with True False first show ?thesis
            by (simp add: build_tasks_loop_any.simps(2) get_peers_for_file_any_str
                list_ex_str_enriched key_eq_KStr ps Let_def)
        next
          case (Inr n)
          let ?t = "\<lparr>file_name = f, source = \<lparr>src_peer_id = e_peer_id src, host = ?h, port = n\<rparr>\<rparr>"
          have t: "map str_task acc @ [\<lparr>file_name = KStr f,
                source = \<lparr>src_peer_id = KStr (e_peer_id src), host = ?h, port = n\<rparr>\<rparr>] =
              map str_task (acc @ [?t])"
            by (simp add: str_task_def)
          have "build_tasks_loop_any str_int R (str_index st) (KStr t) max_tasks
                 (map KStr (f # fs)) (map str_task acc) =
              (if max_tasks \<le> int (length (map str_task (acc @ [?t])))
               then Inr (map str_task (acc @ [?t]))
               else build_tasks_loop_any str_int R (str_index st) (KStr t) max_tasks
                      (map KStr fs) (map str_task (acc @ [?t])))"
            using Inr True False first
            by (simp add: build_tasks_loop_any.simps(2) get_peers_for_file_any_str
                list_ex_str_enriched key_eq_KStr ps Let_def str_task_def)
          moreover have "build_tasks_loop str_int R st t max_tasks (f # fs) acc =
              (if max_tasks \<le> int (length (acc @ [?t])) then Inr (acc @ [?t])
               else build_tasks_loop str_int R st t max_tasks fs (acc @ [?t]))"
            using Inr True False first by (simp add: Let_def)
          ultimately show ?thesis
            using Cons.IH [of "acc @ [?t]"] by simp
        qed
      qed
    qed
  qed
qed

text \<open>
  On an index with string keys the planner the handler calls returns the tasks of
  the planner at the declared types.
\<close>

lemma build_replication_tasks_any_str:
  "build_replication_tasks_for_peer_any str_int R (str_index st) (KStr t) max_tasks =
   (case build_replication_tasks_for_peer str_int R st t max_tasks of
      Inl e \<Rightarrow> Inl e
    | Inr tasks \<Rightarrow> Inr (map str_task tasks))"
proof -
  have "list_files (str_index st) = map KStr (list_files st)"
    by (simp add: list_files_def str_index_def)
  then show ?thesis
    using build_tasks_loop_any_str [of str_int R st t max_tasks "list_files st" "[]"]
    by (simp add: build_replication_tasks_for_peer_any_def build_replication_tasks_for_peer_def)
qed

text \<open>Python's \<^verbatim>\<open>True == 1\<close>: the boolean and the integer are one key.\<close>

lemma true_is_one:
  "add_file_any (add_file_any \<lparr>file_index = [], peer_registry = []\<rparr> (KBool True) (KStr ''a.txt'') None)
     (KInt 1) (KStr ''a.txt'') None =
   \<lparr>file_index = [(KStr ''a.txt'', [\<lparr>peer_id = KBool True, meta = []\<rparr>])], peer_registry = []\<rparr>"
  by (simp add: any_defs)

end
